theory Spec2Isabelle
  imports Complex_Main
begin

section \<open>Python values and text\<close>

text \<open>
  The orchestration core of \<^verbatim>\<open>agent_system/agent_manager.py\<close> works on text returned
  by a language model and on the values that \<^verbatim>\<open>json.loads\<close> produces from it.
  Text is a \<^typ>\<open>string\<close> whose characters are the code points below 256, each
  \<^typ>\<open>char\<close> standing for the code point of its number; a parsed JSON document is a
  value of \<open>json\<close>, a Python \<^verbatim>\<open>dict\<close> being an association list in insertion
  order with distinct keys.
\<close>

datatype json =
    JNull
  | JBool bool
  | JInt int
  | JFloat rat
  | JStr string
  | JArr "json list"
  | JObj "(string \<times> json) list"

text \<open>The exceptions the core can raise or let through.\<close>

datatype py_exn =
    TypeError
  | AttributeError
  | KeyError
  | ValueError
  | RecursionError
  | ChatError string

text \<open>
  The characters for which \<^verbatim>\<open>str.isspace()\<close> holds, which are those
  \<^verbatim>\<open>str.strip()\<close> removes and the pattern \<^verbatim>\<open>\s\<close> matches: the ASCII ones, the
  next-line control and the no-break space.
\<close>

definition whitespace_chars :: "char list" where
  "whitespace_chars =
     [CHR 0x09, CHR 0x0A, CHR 0x0B, CHR 0x0C, CHR 0x0D,
      CHR 0x1C, CHR 0x1D, CHR 0x1E, CHR 0x1F, CHR 0x20, CHR 0x85, CHR 0xA0]"

definition is_space :: "char \<Rightarrow> bool" where
  "is_space c = (c \<in> set whitespace_chars)"

text \<open>\<^verbatim>\<open>str.strip()\<close>: whitespace removed at both ends.\<close>

definition py_strip :: "string \<Rightarrow> string" where
  "py_strip s = rev (dropWhile is_space (rev (dropWhile is_space s)))"

text \<open>
  The upper-case letters below 256 and, place by place, their lower-case letters: the
  ASCII letters and the accented letters from 0xC0 to 0xDE, the multiplication sign 0xD7
  left out.
\<close>

definition upper_chars :: "char list" where
  "upper_chars =
     ''ABCDEFGHIJKLMNOPQRSTUVWXYZ''
     @ [CHR 0xC0, CHR 0xC1, CHR 0xC2, CHR 0xC3, CHR 0xC4, CHR 0xC5, CHR 0xC6, CHR 0xC7,
        CHR 0xC8, CHR 0xC9, CHR 0xCA, CHR 0xCB, CHR 0xCC, CHR 0xCD, CHR 0xCE, CHR 0xCF,
        CHR 0xD0, CHR 0xD1, CHR 0xD2, CHR 0xD3, CHR 0xD4, CHR 0xD5, CHR 0xD6,
        CHR 0xD8, CHR 0xD9, CHR 0xDA, CHR 0xDB, CHR 0xDC, CHR 0xDD, CHR 0xDE]"

definition lower_chars :: "char list" where
  "lower_chars =
     ''abcdefghijklmnopqrstuvwxyz''
     @ [CHR 0xE0, CHR 0xE1, CHR 0xE2, CHR 0xE3, CHR 0xE4, CHR 0xE5, CHR 0xE6, CHR 0xE7,
        CHR 0xE8, CHR 0xE9, CHR 0xEA, CHR 0xEB, CHR 0xEC, CHR 0xED, CHR 0xEE, CHR 0xEF,
        CHR 0xF0, CHR 0xF1, CHR 0xF2, CHR 0xF3, CHR 0xF4, CHR 0xF5, CHR 0xF6,
        CHR 0xF8, CHR 0xF9, CHR 0xFA, CHR 0xFB, CHR 0xFC, CHR 0xFD, CHR 0xFE]"

definition lower_char :: "char \<Rightarrow> char" where
  "lower_char c =
     (case map_of (zip upper_chars lower_chars) c of
        Some l \<Rightarrow> l
      | None \<Rightarrow> c)"

text \<open>\<^verbatim>\<open>str.lower()\<close>, which on these characters works letter by letter.\<close>

definition py_lower :: "string \<Rightarrow> string" where
  "py_lower s = map lower_char s"

text \<open>\<^verbatim>\<open>s.replace(c, "")\<close> for a one-character \<open>c\<close>: every occurrence goes.\<close>

definition remove_char :: "char \<Rightarrow> string \<Rightarrow> string" where
  "remove_char c s = filter (\<lambda>x. x \<noteq> c) s"

definition starts_with :: "string \<Rightarrow> string \<Rightarrow> bool" where
  "starts_with p t = (take (length p) t = p)"

text \<open>\<^verbatim>\<open>p in s\<close> on two strings: \<open>p\<close> occurs in \<open>s\<close>.\<close>

fun is_substring :: "string \<Rightarrow> string \<Rightarrow> bool" where
  "is_substring p [] = (p = [])"
| "is_substring p (c # cs) = (starts_with p (c # cs) \<or> is_substring p cs)"

text \<open>\<^verbatim>\<open>str(i)\<close> for a non-negative integer.\<close>

fun str_nat :: "nat \<Rightarrow> string" where
  "str_nat n =
     (if n < 10 then [''0123456789'' ! n]
      else str_nat (n div 10) @ [''0123456789'' ! (n mod 10)])"

declare str_nat.simps [simp del]

section \<open>Tool-call extraction\<close>

text \<open>
  \<^verbatim>\<open>re.findall(r'```tool\s*\n(.*?)\n```', text, re.DOTALL)\<close>. The lazy group followed by
  the closing fence: the shortest body that a newline and three backquotes follow; with
  \<^verbatim>\<open>DOTALL\<close> the group runs over newlines. The result is the body and the text after
  the match.
\<close>

fun match_body :: "string \<Rightarrow> (string \<times> string) option" where
  "match_body [] = None"
| "match_body (c # cs) =
     (if starts_with ''\<newline>```'' (c # cs) then Some ([], drop 4 (c # cs))
      else map_option (\<lambda>(g, r). (c # g, r)) (match_body cs))"

text \<open>
  The greedy \<^verbatim>\<open>\s*\<close> followed by \<^verbatim>\<open>\n\<close>: the matcher first lets the star take
  one more whitespace character and only when the rest fails that way gives it back and
  tries the character as the newline.
\<close>

fun match_ws :: "string \<Rightarrow> (string \<times> string) option" where
  "match_ws [] = None"
| "match_ws (c # cs) =
     (if is_space c then
        (case match_ws cs of
           Some r \<Rightarrow> Some r
         | None \<Rightarrow> if c = CHR 0x0A then match_body cs else None)
      else None)"

text \<open>One attempt of the whole pattern at the start of the text.\<close>

definition match_here :: "string \<Rightarrow> (string \<times> string) option" where
  "match_here t = (if starts_with ''```tool'' t then match_ws (drop 7 t) else None)"

text \<open>
  The scan of \<^verbatim>\<open>findall\<close>: leftmost matches that do not overlap. \<open>skip\<close> counts the
  characters of the last match still to be passed over.
\<close>

fun findall_from :: "nat \<Rightarrow> string \<Rightarrow> string list" where
  "findall_from skip [] = []"
| "findall_from (Suc skip) (c # cs) = findall_from skip cs"
| "findall_from 0 (c # cs) =
     (case match_here (c # cs) of
        Some (g, r) \<Rightarrow> g # findall_from (length cs - length r) cs
      | None \<Rightarrow> findall_from 0 cs)"

definition findall_tool_blocks :: "string \<Rightarrow> string list" where
  "findall_tool_blocks text = findall_from 0 text"

text \<open>
  \<^verbatim>\<open>"tool" in tool_data\<close> on a parsed value: key membership on a dict, element equality
  on a list, substring on a string, and a \<^verbatim>\<open>TypeError\<close> on a number, a boolean or
  \<^verbatim>\<open>None\<close>.
\<close>

fun contains_tool :: "json \<Rightarrow> py_exn + bool" where
  "contains_tool (JObj kvs) = Inr (''tool'' \<in> set (map fst kvs))"
| "contains_tool (JArr xs) = Inr (JStr ''tool'' \<in> set xs)"
| "contains_tool (JStr s) = Inr (is_substring ''tool'' s)"
| "contains_tool _ = Inl TypeError"

text \<open>
  What \<^verbatim>\<open>json.loads\<close> does with a text: it returns the parsed value, raises
  \<^verbatim>\<open>JSONDecodeError\<close>, or raises something else (\<^verbatim>\<open>ValueError\<close> on an integer of
  more digits than the interpreter converts, \<^verbatim>\<open>RecursionError\<close> on deep nesting).
\<close>

datatype loads_result =
    Loaded json
  | JSONDecodeError
  | LoadsRaised py_exn

text \<open>
  The loop of \<^verbatim>\<open>Agent._extract_tool_calls\<close> over the matches. \<open>loads\<close> is
  \<^verbatim>\<open>json.loads\<close>; \<^verbatim>\<open>JSONDecodeError\<close> is the only exception the loop catches.
\<close>

fun extract_loop :: "(string \<Rightarrow> loads_result) \<Rightarrow> string list \<Rightarrow> py_exn + json list" where
  "extract_loop loads [] = Inr []"
| "extract_loop loads (m # ms) =
     (case loads (py_strip m) of
        JSONDecodeError \<Rightarrow> extract_loop loads ms
      | LoadsRaised e \<Rightarrow> Inl e
      | Loaded tool_data \<Rightarrow>
          (case contains_tool tool_data of
             Inl e \<Rightarrow> Inl e
           | Inr has_key \<Rightarrow>
               (case extract_loop loads ms of
                  Inl e \<Rightarrow> Inl e
                | Inr tool_calls \<Rightarrow>
                    Inr (if has_key then tool_data # tool_calls else tool_calls))))"

definition extract_tool_calls ::
  "(string \<Rightarrow> loads_result) \<Rightarrow> string \<Rightarrow> py_exn + json list" where
  "extract_tool_calls loads text = extract_loop loads (findall_tool_blocks text)"

section \<open>The collaborators: model backend, tools, log\<close>

text \<open>One role-tagged message of the list handed to \<^verbatim>\<open>ollama.chat\<close>.\<close>

record message =
  role :: string
  content :: string

text \<open>
  An entry of the caller's conversation history, as the callers build it: a dict with
  \<^verbatim>\<open>"role"\<close> and \<^verbatim>\<open>"content"\<close>, which the core reads, and other keys
  (timestamp, agent, tools used), kept in \<open>h_extra\<close>, which it does not.
\<close>

record history_entry =
  h_role :: string
  h_content :: string
  h_extra :: "(string \<times> json) list"

text \<open>
  What the core does to the outside, in order: a model invocation with its model name,
  messages and temperature, the call of a tool function with its parameters, a line
  printed. The temperature is a float that the core hands on unread; a rational stands
  for it.
\<close>

datatype event =
    ChatCall string "message list" rat
  | ToolCall string json
  | Print string

text \<open>
  The state outside the core: \<open>world\<close> is what the backend and the tools read and
  write (files, calendar, the backend's own state), \<open>trace\<close> the log of events.
\<close>

record 'w state =
  world :: 'w
  trace :: "event list"

text \<open>
  A tool function, as the call \<^verbatim>\<open>tool_func(**params)\<close> behaves: from the parameters
  and the world to a returned value or, as \<open>Inl\<close>, the message \<^verbatim>\<open>str(e)\<close> of a raised
  \<^verbatim>\<open>Exception\<close>, and the world after the call.
\<close>

type_synonym 'w tool_fun = "json \<Rightarrow> 'w \<Rightarrow> (string + json) \<times> 'w"

text \<open>\<^verbatim>\<open>ToolRegistry\<close>: the dict from tool names to tool functions.\<close>

record 'w tool_registry =
  tools :: "string \<rightharpoonup> 'w tool_fun"

text \<open>
  The library functions the core calls: \<^verbatim>\<open>ollama.chat\<close> returning the text at
  \<^verbatim>\<open>response['message']['content']\<close> or, as \<open>Inl\<close>, the message of the exception it
  raised; \<^verbatim>\<open>json.loads\<close>; \<^verbatim>\<open>json.dumps(_, indent=2)\<close>; and \<^verbatim>\<open>str\<close> on a value
  that is not a string, as an f-string applies it.
\<close>

record 'w env =
  chat :: "string \<Rightarrow> message list \<Rightarrow> rat \<Rightarrow> 'w \<Rightarrow> (string + string) \<times> 'w"
  json_loads :: "string \<Rightarrow> loads_result"
  json_dumps :: "json \<Rightarrow> string"
  py_str :: "json \<Rightarrow> string"

definition ollama_chat ::
  "'w env \<Rightarrow> string \<Rightarrow> message list \<Rightarrow> rat \<Rightarrow> 'w state \<Rightarrow> (string + string) \<times> 'w state" where
  "ollama_chat env mdl messages temp s =
     (case chat env mdl messages temp (world s) of
        (r, w') \<Rightarrow> (r, \<lparr>world = w', trace = trace s @ [ChatCall mdl messages temp]\<rparr>))"

definition format_value :: "'w env \<Rightarrow> json \<Rightarrow> string" where
  "format_value env v = (case v of JStr s \<Rightarrow> s | _ \<Rightarrow> py_str env v)"

text \<open>\<^verbatim>\<open>ToolRegistry.has_tool\<close>: \<^verbatim>\<open>tool_name in self.tools\<close> hashes the name, which a list
  or a dict refuses.\<close>

fun has_tool :: "'w tool_registry \<Rightarrow> json \<Rightarrow> py_exn + bool" where
  "has_tool reg (JStr n) = Inr (tools reg n \<noteq> None)"
| "has_tool reg (JArr xs) = Inl TypeError"
| "has_tool reg (JObj kvs) = Inl TypeError"
| "has_tool reg _ = Inr False"

text \<open>\<^verbatim>\<open>ToolRegistry.get_tool\<close>: \<^verbatim>\<open>self.tools.get(tool_name)\<close>.\<close>

fun get_tool :: "'w tool_registry \<Rightarrow> json \<Rightarrow> 'w tool_fun option" where
  "get_tool reg (JStr n) = tools reg n"
| "get_tool reg _ = None"

text \<open>\<^verbatim>\<open>tool_name in self.tool_names\<close>: equality with an element of a list of strings.\<close>

fun in_tool_names :: "json \<Rightarrow> string list \<Rightarrow> bool" where
  "in_tool_names (JStr n) names = (n \<in> set names)"
| "in_tool_names _ names = False"

section \<open>Agent\<close>

record 'w agent =
  name :: string
  model :: string
  description :: string
  temperature :: rat
  tool_names :: "string list"
  tool_registry :: "'w tool_registry"

text \<open>The configuration of one agent; an absent key is \<open>None\<close>.\<close>

record agent_config =
  cfg_model :: "string option"
  cfg_description :: "string option"
  cfg_temperature :: "rat option"
  cfg_tools :: "string list option"

text \<open>\<^verbatim>\<open>Agent.__init__\<close>, with the defaults of its \<^verbatim>\<open>config.get\<close> calls.\<close>

definition Agent_init :: "string \<Rightarrow> agent_config \<Rightarrow> 'w tool_registry \<Rightarrow> 'w agent" where
  "Agent_init nm config reg =
     \<lparr>name = nm,
      model = (case cfg_model config of Some m \<Rightarrow> m | None \<Rightarrow> ''ministral:3b''),
      description = (case cfg_description config of Some d \<Rightarrow> d | None \<Rightarrow> []),
      temperature = (case cfg_temperature config of Some t \<Rightarrow> t | None \<Rightarrow> 7 / 10),
      tool_names = (case cfg_tools config of Some ts \<Rightarrow> ts | None \<Rightarrow> []),
      tool_registry = reg\<rparr>"

definition build_system_prompt :: "'w agent \<Rightarrow> string" where
  "build_system_prompt a =
     ''You are a specialized AI assistant for: '' @ description a @ ''\<newline>\<newline>''
     @ (if tool_names a \<noteq> [] then
          ''You have access to the following tools:\<newline>''
          @ concat (map (\<lambda>tool_name. ''- '' @ tool_name @ ''\<newline>'') (tool_names a))
          @ ''\<newline>To use a tool, output a JSON block in this format:\<newline>''
          @ ''```tool\<newline>''
          @ ''{'' @ [CHR 0x22] @ ''tool'' @ [CHR 0x22] @ '': '' @ [CHR 0x22] @ ''tool_name''
          @ [CHR 0x22] @ '', '' @ [CHR 0x22] @ ''params'' @ [CHR 0x22] @ '': {''
          @ [CHR 0x22] @ ''param1'' @ [CHR 0x22] @ '': '' @ [CHR 0x22] @ ''value1''
          @ [CHR 0x22] @ ''}}\<newline>''
          @ ''```\<newline>\<newline>''
          @ ''You can call multiple tools by outputting multiple tool blocks.\<newline>''
          @ ''After using tools, explain the results to the user in natural language.\<newline>\<newline>''
        else [])
     @ ''Be helpful, concise, and accurate in your responses.''"

text \<open>\<^verbatim>\<open>conversation_history[-10:]\<close>.\<close>

definition last10 :: "'a list \<Rightarrow> 'a list" where
  "last10 xs = drop (length xs - 10) xs"

text \<open>
  Lines 24 to 39 of \<^verbatim>\<open>Agent.execute\<close>: the message list of the first invocation. The
  history is optional (\<^verbatim>\<open>None\<close> by default), and \<^verbatim>\<open>None\<close> and the empty list are
  both falsy.
\<close>

definition build_messages :: "'w agent \<Rightarrow> string \<Rightarrow> history_entry list option \<Rightarrow> message list" where
  "build_messages a prompt conversation_history =
     [\<lparr>role = ''system'', content = build_system_prompt a\<rparr>]
     @ (case conversation_history of
          None \<Rightarrow> []
        | Some h \<Rightarrow> map (\<lambda>msg. \<lparr>role = h_role msg, content = h_content msg\<rparr>) (last10 h))
     @ [\<lparr>role = ''user'', content = prompt\<rparr>]"

text \<open>The result dict of a refused or failed call.\<close>

definition failure :: "string \<Rightarrow> json" where
  "failure msg = JObj [(''success'', JBool False), (''error'', JStr msg)]"

text \<open>\<^verbatim>\<open>d.get(k)\<close> and \<^verbatim>\<open>d.get(k, default)\<close> on a dict.\<close>

definition dict_get :: "(string \<times> json) list \<Rightarrow> string \<Rightarrow> json \<Rightarrow> json" where
  "dict_get kvs k dflt = (case map_of kvs k of Some v \<Rightarrow> v | None \<Rightarrow> dflt)"

text \<open>
  \<^verbatim>\<open>Agent._execute_tool\<close>. A value without a \<^verbatim>\<open>get\<close> method (a list or a string that
  passed the extraction) raises \<^verbatim>\<open>AttributeError\<close>. The tool function runs only after
  both checks, and what it raises becomes a failure result.
\<close>

definition execute_tool ::
  "'w env \<Rightarrow> 'w agent \<Rightarrow> json \<Rightarrow> 'w state \<Rightarrow> (py_exn + json) \<times> 'w state" where
  "execute_tool env a tool_call s =
     (case tool_call of
        JObj kvs \<Rightarrow>
          (let tool_name = dict_get kvs ''tool'' JNull;
               params = dict_get kvs ''params'' (JObj [])
           in case has_tool (tool_registry a) tool_name of
                Inl e \<Rightarrow> (Inl e, s)
              | Inr False \<Rightarrow>
                  (Inr (failure (''Tool '' @ format_value env tool_name @ '' not found'')), s)
              | Inr True \<Rightarrow>
                  if \<not> in_tool_names tool_name (tool_names a) then
                    (Inr (failure (''Tool '' @ format_value env tool_name
                                   @ '' not available to this agent'')), s)
                  else
                    (case get_tool (tool_registry a) tool_name of
                       None \<Rightarrow>
                         (Inr (failure ([CHR 0x27] @ ''NoneType'' @ [CHR 0x27]
                                        @ '' object is not callable'')), s)
                     | Some tool_func \<Rightarrow>
                         (case tool_func params (world s) of
                            (r, w') \<Rightarrow>
                              let s' = \<lparr>world = w',
                                        trace = trace s @ [ToolCall (format_value env tool_name) params]\<rparr>
                              in (case r of
                                    Inr result \<Rightarrow> (Inr result, s')
                                  | Inl msg \<Rightarrow> (Inr (failure msg), s')))))
      | _ \<Rightarrow> (Inl AttributeError, s))"

text \<open>\<^verbatim>\<open>tool_call["tool"]\<close>.\<close>

fun getitem_tool :: "json \<Rightarrow> py_exn + json" where
  "getitem_tool (JObj kvs) =
     (case map_of kvs ''tool'' of Some v \<Rightarrow> Inr v | None \<Rightarrow> Inl KeyError)"
| "getitem_tool _ = Inl TypeError"

text \<open>
  The loop of \<^verbatim>\<open>Agent.execute\<close> over the extracted calls, in order: the names appended
  to \<^verbatim>\<open>tools_used\<close> and the results appended to \<^verbatim>\<open>tool_results\<close>.
\<close>

fun run_tool_calls ::
  "'w env \<Rightarrow> 'w agent \<Rightarrow> json list \<Rightarrow> 'w state \<Rightarrow> (py_exn + json list \<times> json list) \<times> 'w state" where
  "run_tool_calls env a [] s = (Inr ([], []), s)"
| "run_tool_calls env a (tool_call # rest) s =
     (case execute_tool env a tool_call s of
        (Inl e, s1) \<Rightarrow> (Inl e, s1)
      | (Inr result, s1) \<Rightarrow>
          (case getitem_tool tool_call of
             Inl e \<Rightarrow> (Inl e, s1)
           | Inr used \<Rightarrow>
               (case run_tool_calls env a rest s1 of
                  (Inl e, s2) \<Rightarrow> (Inl e, s2)
                | (Inr (tools_used, tool_results), s2) \<Rightarrow>
                    (Inr (used # tools_used, result # tool_results), s2))))"

text \<open>\<^verbatim>\<open>Agent._build_synthesis_prompt\<close>; the results are numbered from 1.\<close>

fun results_text :: "'w env \<Rightarrow> nat \<Rightarrow> json list \<Rightarrow> string" where
  "results_text env i [] = []"
| "results_text env i (result # rest) =
     ''\<newline>Tool '' @ str_nat i @ '': '' @ json_dumps env result @ ''\<newline>''
     @ results_text env (Suc i) rest"

definition build_synthesis_prompt :: "'w env \<Rightarrow> string \<Rightarrow> json list \<Rightarrow> string" where
  "build_synthesis_prompt env original_prompt tool_results =
     ''Based on the tool results below, provide a natural language response to the user''
     @ [CHR 0x27] @ ''s request.\<newline>\<newline>''
     @ ''User request: '' @ original_prompt @ ''\<newline>\<newline>''
     @ ''Tool results:\<newline>''
     @ results_text env 1 tool_results
     @ ''\<newline>Provide a clear, helpful response based on these results:''"

record exec_result =
  response :: string
  tools_used :: "json list"

text \<open>\<^verbatim>\<open>Agent.execute\<close>. An exception of either model invocation, of the extraction or of
  the dispatch of a call leaves the method.\<close>

definition execute ::
  "'w env \<Rightarrow> 'w agent \<Rightarrow> string \<Rightarrow> history_entry list option \<Rightarrow> 'w state
     \<Rightarrow> (py_exn + exec_result) \<times> 'w state" where
  "execute env a prompt conversation_history s =
     (let messages = build_messages a prompt conversation_history
      in case ollama_chat env (model a) messages (temperature a) s of
           (Inl e, s1) \<Rightarrow> (Inl (ChatError e), s1)
         | (Inr assistant_message, s1) \<Rightarrow>
             (case extract_tool_calls (json_loads env) assistant_message of
                Inl e \<Rightarrow> (Inl e, s1)
              | Inr tool_calls \<Rightarrow>
                  if tool_calls = [] then
                    (Inr \<lparr>response = assistant_message, tools_used = []\<rparr>, s1)
                  else
                    (case run_tool_calls env a tool_calls s1 of
                       (Inl e, s2) \<Rightarrow> (Inl e, s2)
                     | (Inr (used, tool_results), s2) \<Rightarrow>
                         if tool_results = [] then
                           (Inr \<lparr>response = assistant_message, tools_used = used\<rparr>, s2)
                         else
                           (let synthesis_prompt = build_synthesis_prompt env prompt tool_results;
                                synthesis_messages = messages
                                  @ [\<lparr>role = ''assistant'', content = assistant_message\<rparr>,
                                     \<lparr>role = ''user'', content = synthesis_prompt\<rparr>]
                            in case ollama_chat env (model a) synthesis_messages (temperature a) s2 of
                                 (Inl e, s3) \<Rightarrow> (Inl (ChatError e), s3)
                               | (Inr final_response, s3) \<Rightarrow>
                                   (Inr \<lparr>response = final_response, tools_used = used\<rparr>, s3)))))"

section \<open>RouterAgent\<close>

record router_agent =
  router_model :: string
  router_temperature :: rat
  agent_names :: "string list"
  agent_descriptions :: "(string \<times> string) list"

record router_config =
  rcfg_model :: "string option"
  rcfg_temperature :: "rat option"

text \<open>\<^verbatim>\<open>RouterAgent.__init__\<close> and \<^verbatim>\<open>RouterAgent.set_agent_descriptions\<close>.\<close>

definition RouterAgent_init :: "router_config \<Rightarrow> string list \<Rightarrow> router_agent" where
  "RouterAgent_init config names =
     \<lparr>router_model = (case rcfg_model config of Some m \<Rightarrow> m | None \<Rightarrow> ''gemma2:2b''),
      router_temperature = (case rcfg_temperature config of Some t \<Rightarrow> t | None \<Rightarrow> 3 / 10),
      agent_names = names,
      agent_descriptions = []\<rparr>"

definition set_agent_descriptions :: "router_agent \<Rightarrow> (string \<times> string) list \<Rightarrow> router_agent" where
  "set_agent_descriptions r descriptions = r\<lparr>agent_descriptions := descriptions\<rparr>"

text \<open>The two messages \<^verbatim>\<open>RouterAgent.route\<close> builds (lines 172 to 185).\<close>

definition route_messages :: "router_agent \<Rightarrow> string \<Rightarrow> message list" where
  "route_messages r query =
     [\<lparr>role = ''system'',
       content =
         ''You are a routing assistant. Your job is to determine which specialized agent should handle a user''
         @ [CHR 0x27] @ ''s request.\<newline>\<newline>''
         @ ''Available agents:\<newline>''
         @ concat (map (\<lambda>(agent_name, descr). ''- '' @ agent_name @ '': '' @ descr @ ''\<newline>'')
                     (agent_descriptions r))
         @ ''\<newline>Analyze the user'' @ [CHR 0x27]
         @ ''s request and respond with ONLY the agent name that should handle it.\<newline>''
         @ ''Respond with just the agent name, nothing else.\<newline>''
         @ ''If no specialized agent fits, respond with '' @ [CHR 0x27] @ ''general''
         @ [CHR 0x27] @ ''.''\<rparr>,
      \<lparr>role = ''user'',
       content = ''Which agent should handle this request?\<newline>\<newline>Request: '' @ query\<rparr>]"

text \<open>
  Lines 194 to 197: \<^verbatim>\<open>strip().lower()\<close>, then every double quote, single quote and
  period removed.
\<close>

definition normalize_answer :: "string \<Rightarrow> string" where
  "normalize_answer raw =
     remove_char (CHR ''.'') (remove_char (CHR 0x27) (remove_char (CHR 0x22)
       (py_lower (py_strip raw))))"

text \<open>
  \<^verbatim>\<open>RouterAgent.route\<close>. The history parameter is accepted and not read. An exception
  of the model invocation is printed and answered with \<^verbatim>\<open>"general"\<close>.
\<close>

definition route ::
  "'w env \<Rightarrow> router_agent \<Rightarrow> string \<Rightarrow> history_entry list option \<Rightarrow> 'w state
     \<Rightarrow> string \<times> 'w state" where
  "route env r query conversation_history s =
     (case ollama_chat env (router_model r) (route_messages r query) (router_temperature r) s of
        (Inr raw, s1) \<Rightarrow>
          (let selected_agent = normalize_answer raw
           in if selected_agent \<in> set (agent_names r) then (selected_agent, s1)
              else (''general'', s1))
      | (Inl e, s1) \<Rightarrow>
          (''general'', s1\<lparr>trace := trace s1 @ [Print (''Routing error: '' @ e)]\<rparr>))"

section \<open>AgentManager\<close>

text \<open>The configuration: \<^verbatim>\<open>{"agents": {name: {...}}, "router": {...}}\<close>, either key
  possibly absent.\<close>

record config =
  cfg_agents :: "(string \<times> agent_config) list option"
  cfg_router :: "router_config option"

record 'w agent_manager =
  mgr_config :: config
  mgr_tool_registry :: "'w tool_registry"
  agents :: "(string \<times> 'w agent) list"
  router :: router_agent

text \<open>\<^verbatim>\<open>d[k] = v\<close> on a dict: the value replaced in place, or the pair added at the end.\<close>

fun dict_set :: "'k \<Rightarrow> 'v \<Rightarrow> ('k \<times> 'v) list \<Rightarrow> ('k \<times> 'v) list" where
  "dict_set k v [] = [(k, v)]"
| "dict_set k v ((k', v') # d) =
     (if k' = k then (k, v) # d else (k', v') # dict_set k v d)"

text \<open>\<^verbatim>\<open>AgentManager.__init__\<close> with \<^verbatim>\<open>_initialize_agents\<close>.\<close>

definition AgentManager_init :: "config \<Rightarrow> 'w tool_registry \<Rightarrow> 'w agent_manager" where
  "AgentManager_init cfg reg =
     (let agent_configs = (case cfg_agents cfg of Some acs \<Rightarrow> acs | None \<Rightarrow> []);
          ags = foldl (\<lambda>d (agent_name, agent_config).
                         dict_set agent_name (Agent_init agent_name agent_config reg) d)
                  [] agent_configs;
          router_config = (case cfg_router cfg of
                             Some rc \<Rightarrow> rc
                           | None \<Rightarrow> \<lparr>rcfg_model = None, rcfg_temperature = None\<rparr>);
          descriptions = map (\<lambda>(nm, a). (nm, description a)) ags
      in \<lparr>mgr_config = cfg,
          mgr_tool_registry = reg,
          agents = ags,
          router = set_agent_descriptions (RouterAgent_init router_config (map fst ags))
                     descriptions\<rparr>)"

record manager_result = exec_result +
  agent_used :: string

text \<open>\<^verbatim>\<open>AgentManager.execute_with_agent\<close>.\<close>

definition execute_with_agent ::
  "'w env \<Rightarrow> 'w agent_manager \<Rightarrow> string \<Rightarrow> string \<Rightarrow> history_entry list option \<Rightarrow> 'w state
     \<Rightarrow> (py_exn + manager_result) \<times> 'w state" where
  "execute_with_agent env mgr agent_name query conversation_history s =
     (case map_of (agents mgr) agent_name of
        None \<Rightarrow>
          (Inr \<lparr>response = ''Error: Agent '' @ [CHR 0x27] @ agent_name @ [CHR 0x27] @ '' not found'',
                tools_used = [],
                agent_used = ''error''\<rparr>, s)
      | Some a \<Rightarrow>
          (case execute env a query conversation_history s of
             (Inl e, s1) \<Rightarrow> (Inl e, s1)
           | (Inr result, s1) \<Rightarrow>
               (Inr \<lparr>response = response result,
                     tools_used = tools_used result,
                     agent_used = agent_name\<rparr>, s1)))"

text \<open>\<^verbatim>\<open>AgentManager.process_query\<close>.\<close>

definition process_query ::
  "'w env \<Rightarrow> 'w agent_manager \<Rightarrow> string \<Rightarrow> history_entry list option \<Rightarrow> 'w state
     \<Rightarrow> (py_exn + manager_result) \<times> 'w state" where
  "process_query env mgr query conversation_history s =
     (case route env (router mgr) query conversation_history s of
        (selected_agent_name, s1) \<Rightarrow>
          execute_with_agent env mgr selected_agent_name query conversation_history s1)"

record agent_info =
  info_description :: string
  info_model :: string
  info_tools :: "string list"

definition agent_info_of :: "'w agent \<Rightarrow> agent_info" where
  "agent_info_of a =
     \<lparr>info_description = description a, info_model = model a, info_tools = tool_names a\<rparr>"

text \<open>
  \<^verbatim>\<open>AgentManager.get_agent_list\<close>, as a method: it takes the manager and the state
  outside and gives both back with the listing it built.
\<close>

definition get_agent_list ::
  "'w agent_manager \<Rightarrow> 'w state \<Rightarrow> (string \<times> agent_info) list \<times> 'w agent_manager \<times> 'w state" where
  "get_agent_list mgr s = (map (\<lambda>(nm, a). (nm, agent_info_of a)) (agents mgr), mgr, s)"

section \<open>A scripted backend and a small configuration\<close>

text \<open>
  Concrete collaborators on which the theorems below are run. The world is a queue of
  the replies the backend will give and the list of files written so far.
\<close>

type_synonym example_world = "(string + string) list \<times> (string \<times> string) list"

definition scripted_chat ::
  "string \<Rightarrow> message list \<Rightarrow> rat \<Rightarrow> example_world \<Rightarrow> (string + string) \<times> example_world" where
  "scripted_chat mdl messages temp w =
     (case fst w of
        [] \<Rightarrow> (Inl ''backend unavailable'', w)
      | r # rs \<Rightarrow> (r, (rs, snd w)))"

text \<open>
  \<^verbatim>\<open>json.loads\<close> on the listed texts, which it parses to the values beside them; any
  other text stands for one that is not JSON.
\<close>

definition loads_of :: "(string \<times> json) list \<Rightarrow> string \<Rightarrow> loads_result" where
  "loads_of documents s =
     (case map_of documents s of Some v \<Rightarrow> Loaded v | None \<Rightarrow> JSONDecodeError)"

text \<open>\<^verbatim>\<open>json.dumps(_, indent=2)\<close> on the two tool results that are serialized below.\<close>

definition dumped_missing_arguments :: string where
  \<open>dumped_missing_arguments =
     ''{\<newline>  "success": false,\<newline>  "error": "write_file() missing required arguments"\<newline>}''\<close>

definition dumped_written :: string where
  \<open>dumped_written = ''{\<newline>  "success": true,\<newline>  "path": "a.txt"\<newline>}''\<close>

definition example_dumps :: "json \<Rightarrow> string" where
  "example_dumps v =
     (case map_of
        [(JObj [(''success'', JBool False),
                (''error'', JStr ''write_file() missing required arguments'')],
          dumped_missing_arguments),
         (JObj [(''success'', JBool True), (''path'', JStr ''a.txt'')], dumped_written)] v of
        Some s \<Rightarrow> s
      | None \<Rightarrow> ''null'')"

text \<open>\<open>documents\<close> lists the texts \<^verbatim>\<open>json.loads\<close> is asked to parse with their values.\<close>

definition example_env :: "(string \<times> json) list \<Rightarrow> example_world env" where
  "example_env documents =
     \<lparr>chat = scripted_chat,
      json_loads = loads_of documents,
      json_dumps = example_dumps,
      py_str = (\<lambda>v. ''<value>'')\<rparr>"

text \<open>A \<^verbatim>\<open>write_file(file_path, content)\<close>: a call without both arguments raises.\<close>

definition example_write_file :: "example_world tool_fun" where
  "example_write_file params w =
     (case params of
        JObj kvs \<Rightarrow>
          (case (map_of kvs ''file_path'', map_of kvs ''content'') of
             (Some (JStr p), Some (JStr c)) \<Rightarrow>
               (Inr (JObj [(''success'', JBool True), (''path'', JStr p)]),
                (fst w, snd w @ [(p, c)]))
           | _ \<Rightarrow> (Inl ''write_file() missing required arguments'', w))
      | _ \<Rightarrow> (Inl ''argument after ** must be a mapping'', w))"

definition example_registry :: "example_world tool_registry" where
  "example_registry = \<lparr>tools = [''write_file'' \<mapsto> example_write_file]\<rparr>"

definition example_config :: config where
  "example_config =
     \<lparr>cfg_agents = Some
        [(''general'',
          \<lparr>cfg_model = Some ''ministral:3b'',
           cfg_description = Some ''General conversation and questions'',
           cfg_temperature = Some (7 / 10),
           cfg_tools = None\<rparr>),
         (''calendar'',
          \<lparr>cfg_model = Some ''ministral:3b'',
           cfg_description = Some ''Calendar management, scheduling, events'',
           cfg_temperature = Some (3 / 10),
           cfg_tools = Some [''create_event'', ''list_events'', ''delete_event'']\<rparr>),
         (''file_manager'',
          \<lparr>cfg_model = Some ''ministral:3b'',
           cfg_description = Some ''File operations, saving documents, managing files'',
           cfg_temperature = Some (3 / 10),
           cfg_tools = Some [''write_file'']\<rparr>)],
      cfg_router = Some \<lparr>rcfg_model = Some ''gemma2:2b'', rcfg_temperature = Some (3 / 10)\<rparr>\<rparr>"

text \<open>A configuration file that defines one agent and none called \<^verbatim>\<open>general\<close>.\<close>

definition calendar_only_config :: config where
  "calendar_only_config =
     \<lparr>cfg_agents = Some
        [(''calendar'',
          \<lparr>cfg_model = None,
           cfg_description = Some ''Calendar management, scheduling, events'',
           cfg_temperature = None,
           cfg_tools = Some [''create_event'']\<rparr>)],
      cfg_router = None\<rparr>"

definition example_manager :: "example_world agent_manager" where
  "example_manager = AgentManager_init example_config example_registry"

definition file_manager_agent :: "example_world agent" where
  "file_manager_agent =
     Agent_init ''file_manager''
       \<lparr>cfg_model = Some ''ministral:3b'',
        cfg_description = Some ''File operations, saving documents, managing files'',
        cfg_temperature = Some (3 / 10),
        cfg_tools = Some [''write_file'']\<rparr>
       example_registry"

text \<open>The \<^verbatim>\<open>general\<close> agent of the example configuration; it has no tools.\<close>

definition general_agent :: "example_world agent" where
  "general_agent =
     Agent_init ''general''
       \<lparr>cfg_model = Some ''ministral:3b'',
        cfg_description = Some ''General conversation and questions'',
        cfg_temperature = Some (7 / 10),
        cfg_tools = None\<rparr>
       example_registry"

definition start_state :: "(string + string) list \<Rightarrow> example_world state" where
  "start_state replies = \<lparr>world = (replies, []), trace = []\<rparr>"

text \<open>The messages of the model invocation logged last.\<close>

definition last_invocation_messages :: "event list \<Rightarrow> message list" where
  "last_invocation_messages evs =
     (case filter (\<lambda>ev. case ev of ChatCall mdl msgs temp \<Rightarrow> True | _ \<Rightarrow> False) evs of
        [] \<Rightarrow> []
      | cs \<Rightarrow> (case last cs of ChatCall mdl msgs temp \<Rightarrow> msgs | _ \<Rightarrow> []))"

text \<open>
  The synthesis instruction for the request \<^verbatim>\<open>Save hi to a.txt\<close> after a failed and a
  successful \<^verbatim>\<open>write_file\<close>.
\<close>

definition expected_synthesis_prompt :: string where
  "expected_synthesis_prompt =
     ''Based on the tool results below, provide a natural language response to the user''
     @ [CHR 0x27] @ ''s request.\<newline>\<newline>User request: Save hi to a.txt\<newline>\<newline>''
     @ ''Tool results:\<newline>\<newline>Tool 1: '' @ dumped_missing_arguments
     @ ''\<newline>\<newline>Tool 2: '' @ dumped_written
     @ ''\<newline>\<newline>Provide a clear, helpful response based on these results:''"

text \<open>A fenced block tagged \<^verbatim>\<open>tool\<close> around a body, as the system prompt shows it.\<close>

definition tool_block :: "string \<Rightarrow> string" where
  "tool_block body = ''```tool\<newline>'' @ body @ ''\<newline>```''"

text \<open>The bodies used below and what \<^verbatim>\<open>json.loads\<close> makes of them.\<close>

definition doc_write_no_args :: string where
  \<open>doc_write_no_args = ''{"tool": "write_file", "params": {}}''\<close>

definition doc_write_a_txt :: string where
  \<open>doc_write_a_txt =
     ''{"tool": "write_file", "params": {"file_path": "a.txt", "content": "hi"}}''\<close>

definition doc_delete :: string where
  \<open>doc_delete = ''{"tool": "delete_file", "params": {"file_path": "a.txt"}}''\<close>

definition doc_list_name :: string where
  \<open>doc_list_name = ''{"tool": ["write_file"]}''\<close>

definition doc_number :: string where
  "doc_number = ''5''"

definition doc_array :: string where
  \<open>doc_array = ''["tool"]''\<close>

definition doc_broken :: string where
  \<open>doc_broken = ''{"tool": "write_file", ''\<close>

definition example_documents :: "(string \<times> json) list" where
  "example_documents =
     [(doc_write_no_args, JObj [(''tool'', JStr ''write_file''), (''params'', JObj [])]),
      (doc_write_a_txt,
       JObj [(''tool'', JStr ''write_file''),
             (''params'', JObj [(''file_path'', JStr ''a.txt''), (''content'', JStr ''hi'')])]),
      (doc_delete,
       JObj [(''tool'', JStr ''delete_file''),
             (''params'', JObj [(''file_path'', JStr ''a.txt'')])])]"

definition list_name_documents :: "(string \<times> json) list" where
  "list_name_documents = [(doc_list_name, JObj [(''tool'', JArr [JStr ''write_file''])])]"

definition scalar_documents :: "(string \<times> json) list" where
  "scalar_documents = [(doc_number, JInt 5), (doc_array, JArr [JStr ''tool''])]"

section \<open>The post-processing as the specification words it\<close>

text \<open>
  The specification's account of the router's post-processing: the raw response
  lower-cased, quote and period characters stripped where they surround it, and the
  result accepted when it is a known agent name.
\<close>

definition spec_strip_surrounding :: "string \<Rightarrow> string" where
  "spec_strip_surrounding s =
     (let p = (\<lambda>c. c \<in> set [CHR 0x22, CHR 0x27, CHR ''.''])
      in rev (dropWhile p (rev (dropWhile p s))))"

definition spec_route_decision :: "string list \<Rightarrow> string \<Rightarrow> string" where
  "spec_route_decision names raw =
     (let answer = spec_strip_surrounding (py_lower raw)
      in if answer \<in> set names then answer else ''general'')"

section \<open>Tool calls of the documented shape\<close>

text \<open>
  The shape the system prompt asks the model for: a JSON object whose \<^verbatim>\<open>"tool"\<close> entry
  is a string.
\<close>

definition is_tool_call :: "json \<Rightarrow> bool" where
  "is_tool_call c =
     (case c of
        JObj kvs \<Rightarrow> (case map_of kvs ''tool'' of Some (JStr n) \<Rightarrow> True | _ \<Rightarrow> False)
      | _ \<Rightarrow> False)"

section \<open>The log of model invocations\<close>

lemma ollama_chat_trace:
  "\<exists>r w'. ollama_chat env mdl msgs t s
            = (r, \<lparr>world = w', trace = trace s @ [ChatCall mdl msgs t]\<rparr>)
         \<and> chat env mdl msgs t (world s) = (r, w')"
  by (cases "chat env mdl msgs t (world s)") (simp add: ollama_chat_def)

lemma execute_tool_trace_mono:
  "\<exists>evs. trace (snd (execute_tool env a c s)) = trace s @ evs"
  by (auto simp: execute_tool_def Let_def
      split: json.splits sum.splits bool.splits option.splits prod.splits)

lemma run_tool_calls_trace_mono:
  "\<exists>evs. trace (snd (run_tool_calls env a cs s)) = trace s @ evs"
proof (induction cs arbitrary: s)
  case Nil
  then show ?case by simp
next
  case (Cons c cs)
  obtain r s1 where e: "execute_tool env a c s = (r, s1)"
    by (cases "execute_tool env a c s")
  from execute_tool_trace_mono[of env a c s] e
  obtain ev1 where t1: "trace s1 = trace s @ ev1" by auto
  obtain r2 s2 where e2: "run_tool_calls env a cs s1 = (r2, s2)"
    by (cases "run_tool_calls env a cs s1")
  from Cons.IH[of s1] e2 obtain ev2 where t2: "trace s2 = trace s1 @ ev2" by auto
  show ?case using e e2 t1 t2
    by (auto split: sum.splits prod.splits)
qed

lemma execute_trace_prefix:
  "\<exists>later. trace (snd (execute env a prompt h s)) =
     trace s @ ChatCall (model a) (build_messages a prompt h) (temperature a) # later"
proof -
  let ?msgs = "build_messages a prompt h"
  obtain r s1 where c1: "ollama_chat env (model a) ?msgs (temperature a) s = (r, s1)"
    and t1: "trace s1 = trace s @ [ChatCall (model a) ?msgs (temperature a)]"
    using ollama_chat_trace[of env "model a" ?msgs "temperature a" s] by auto
  show ?thesis
  proof (cases r)
    case (Inl e)
    with c1 t1 show ?thesis by (simp add: execute_def)
  next
    case (Inr reply)
    show ?thesis
    proof (cases "extract_tool_calls (json_loads env) reply")
      case (Inl e)
      with Inr c1 t1 show ?thesis by (simp add: execute_def)
    next
      case calls: (Inr calls)
      show ?thesis
      proof (cases "calls = []")
        case True
        with calls Inr c1 t1 show ?thesis by (simp add: execute_def)
      next
        case False
        obtain r2 s2 where e2: "run_tool_calls env a calls s1 = (r2, s2)"
          by (cases "run_tool_calls env a calls s1")
        from run_tool_calls_trace_mono[of env a calls s1] e2
        obtain ev2 where t2: "trace s2 = trace s1 @ ev2" by auto
        show ?thesis
        proof (cases r2)
          case (Inl e)
          with False calls Inr c1 t1 e2 t2 show ?thesis by (simp add: execute_def)
        next
          case res: (Inr ur)
          obtain used results where ur: "ur = (used, results)" by (cases ur)
          let ?m2 = "?msgs @ [\<lparr>role = ''assistant'', content = reply\<rparr>,
                       \<lparr>role = ''user'', content = build_synthesis_prompt env prompt results\<rparr>]"
          obtain r3 s3 where c3: "ollama_chat env (model a) ?m2 (temperature a) s2 = (r3, s3)"
            and t3: "trace s3 = trace s2 @ [ChatCall (model a) ?m2 (temperature a)]"
            using ollama_chat_trace[of env "model a" ?m2 "temperature a" s2] by auto
          show ?thesis
            using False calls Inr c1 t1 e2 t2 res ur c3 t3
            by (cases r3) (simp_all add: execute_def Let_def)
        qed
      qed
    qed
  qed
qed

text \<open>
  Claim C6. Whatever the history, the first event \<^verbatim>\<open>Agent.execute\<close> adds to the log
  is a model invocation whose messages are the system prompt, then the last
  \<open>min n 10\<close> of the \<open>n\<close> history entries in their order (role and content of each),
  then the query as the user turn. An absent history counts as the empty one.
\<close>

theorem first_invocation_messages:
  fixes h :: "history_entry list option"
  defines "hist \<equiv> (case h of None \<Rightarrow> [] | Some x \<Rightarrow> x)"
  shows "(\<exists>later. trace (snd (execute env a prompt h s)) =
           trace s @ ChatCall (model a)
             (\<lparr>role = ''system'', content = build_system_prompt a\<rparr>
              # map (\<lambda>m. \<lparr>role = h_role m, content = h_content m\<rparr>)
                  (drop (length hist - 10) hist)
              @ [\<lparr>role = ''user'', content = prompt\<rparr>]) (temperature a) # later)
    \<and> length (drop (length hist - 10) hist) = min (length hist) 10"
proof -
  have "build_messages a prompt h =
          \<lparr>role = ''system'', content = build_system_prompt a\<rparr>
              # map (\<lambda>m. \<lparr>role = h_role m, content = h_content m\<rparr>)
                  (drop (length hist - 10) hist)
              @ [\<lparr>role = ''user'', content = prompt\<rparr>]"
    by (cases h) (simp_all add: build_messages_def last10_def hist_def)
  with execute_trace_prefix[of env a prompt h s] show ?thesis by auto
qed

text \<open>With fifteen entries, the five oldest are left out.\<close>

lemma fifteen_entries_window:
  "length hist = 15 \<Longrightarrow>
     build_messages a prompt (Some hist) =
       \<lparr>role = ''system'', content = build_system_prompt a\<rparr>
       # map (\<lambda>m. \<lparr>role = h_role m, content = h_content m\<rparr>) (drop 5 hist)
       @ [\<lparr>role = ''user'', content = prompt\<rparr>]"
  by (simp add: build_messages_def last10_def)

section \<open>Routing\<close>

text \<open>
  Claim C10. \<^verbatim>\<open>RouterAgent.route\<close> does not depend on the conversation history: for
  any two histories, absent ones included, the run is the same, answer and state; and
  the one model invocation it logs carries the two messages built from the agent
  descriptions and the query alone.
\<close>

theorem route_ignores_history:
  "route env r query h1 s = route env r query h2 s
   \<and> (\<exists>rest. trace (snd (route env r query h1 s)) =
         trace s @ ChatCall (router_model r) (route_messages r query) (router_temperature r)
                   # rest)"
proof -
  let ?msgs = "route_messages r query"
  obtain res s1 where c: "ollama_chat env (router_model r) ?msgs (router_temperature r) s = (res, s1)"
    and t: "trace s1 = trace s @ [ChatCall (router_model r) ?msgs (router_temperature r)]"
    using ollama_chat_trace[of env "router_model r" ?msgs "router_temperature r" s] by auto
  have "\<exists>rest. trace (snd (route env r query h1 s)) =
         trace s @ ChatCall (router_model r) ?msgs (router_temperature r) # rest"
    using c t by (cases res) (simp_all add: route_def Let_def)
  moreover have "route env r query h1 s = route env r query h2 s"
    by (simp add: route_def)
  ultimately show ?thesis by blast
qed

lemma map_fst_dict_set:
  "map fst (dict_set k v d) = (if k \<in> set (map fst d) then map fst d else map fst d @ [k])"
  by (induction d) (force+)

lemma keys_dict_set: "set (map fst (dict_set k v d)) = insert k (set (map fst d))"
  unfolding map_fst_dict_set by auto

lemma keys_foldl_dict_set:
  "set (map fst (foldl (\<lambda>d (k, c). dict_set k (f k c) d) init xs))
     = set (map fst init) \<union> set (map fst xs)"
proof (induction xs arbitrary: init)
  case Nil
  then show ?case by simp
next
  case (Cons x xs)
  obtain k c where x: "x = (k, c)" by (cases x)
  show ?case
    using Cons.IH[of "dict_set k (f k c) init"] keys_dict_set[of k "f k c" init]
    by (simp add: x)
qed

lemma agents_init_keys:
  "set (map fst (agents (AgentManager_init cfg reg))) =
     set (map fst (case cfg_agents cfg of Some acs \<Rightarrow> acs | None \<Rightarrow> []))"
  using keys_foldl_dict_set[of "\<lambda>k c. Agent_init k c reg" "[]"]
  by (simp add: AgentManager_init_def Let_def)

lemma router_init_names:
  "agent_names (router (AgentManager_init cfg reg))
     = map fst (agents (AgentManager_init cfg reg))"
  by (simp add: AgentManager_init_def Let_def set_agent_descriptions_def RouterAgent_init_def)

lemma route_result:
  "fst (route env r q h s) \<in> set (agent_names r) \<or> fst (route env r q h s) = ''general''"
  by (auto simp: route_def Let_def split: prod.splits sum.splits)

lemmas example_eval =
  AgentManager_init_def Agent_init_def Let_def route_def ollama_chat_def example_env_def
  scripted_chat_def start_state_def RouterAgent_init_def set_agent_descriptions_def
  normalize_answer_def py_lower_def py_strip_def lower_char_def upper_chars_def lower_chars_def
  remove_char_def is_space_def whitespace_chars_def

text \<open>
  Claim C1, as the code has it. For a manager built from a configuration, the name
  \<^verbatim>\<open>RouterAgent.route\<close> returns is a key of the agent set or the literal
  \<^verbatim>\<open>general\<close>; it is always a key when the configuration defines an agent called
  \<^verbatim>\<open>general\<close>, the keys of the agent set being those of the configuration; and
  \<^verbatim>\<open>process_query\<close> hands that name to \<^verbatim>\<open>execute_with_agent\<close>.
\<close>

theorem route_names_agent_or_general:
  fixes cfg :: config and reg :: "'w tool_registry"
  defines "mgr \<equiv> AgentManager_init cfg reg"
  assumes r: "route env (router mgr) q h s = (n, s1)"
  shows "(n \<in> set (map fst (agents mgr)) \<or> n = ''general'')
       \<and> (''general'' \<in> set (map fst (agents mgr)) \<longrightarrow> n \<in> set (map fst (agents mgr)))
       \<and> set (map fst (agents mgr))
            = set (map fst (case cfg_agents cfg of Some acs \<Rightarrow> acs | None \<Rightarrow> []))
       \<and> process_query env mgr q h s = execute_with_agent env mgr n q h s1"
proof -
  have "n \<in> set (agent_names (router mgr)) \<or> n = ''general''"
    using route_result[of env "router mgr" q h s] r by simp
  then have a: "n \<in> set (map fst (agents mgr)) \<or> n = ''general''"
    by (simp add: mgr_def router_init_names)
  have k: "set (map fst (agents mgr))
            = set (map fst (case cfg_agents cfg of Some acs \<Rightarrow> acs | None \<Rightarrow> []))"
    unfolding mgr_def by (rule agents_init_keys)
  have p: "process_query env mgr q h s = execute_with_agent env mgr n q h s1"
    by (simp add: process_query_def r)
  from a k p show ?thesis by blast
qed

text \<open>
  The theorem at work: the configuration defines \<^verbatim>\<open>general\<close>, the model answers
  \<^verbatim>\<open>Calendar.\<close>, and the routed name is the key \<^verbatim>\<open>calendar\<close>.
\<close>

theorem route_names_agent_or_general_witness:
  "''general'' \<in> set (map fst (agents example_manager))
   \<and> fst (route (example_env []) (router example_manager) ''What is on today?'' None
            (start_state [Inr ''Calendar.''])) = ''calendar''
   \<and> fst (route (example_env []) (router example_manager) ''What is on today?'' None
            (start_state [Inr ''Calendar.''])) \<in> set (map fst (agents example_manager))"
proof -
  let ?mgr = "AgentManager_init example_config example_registry :: example_world agent_manager"
  let ?r = "route (example_env []) (router ?mgr) ''What is on today?'' None
              (start_state [Inr ''Calendar.''])"
  have g: "''general'' \<in> set (map fst (agents ?mgr))"
    by (simp add: example_eval example_config_def)
  have c: "fst ?r = ''calendar''"
    by (simp add: example_eval example_config_def)
  have pr: "?r = (fst ?r, snd ?r)" by simp
  note imp = route_names_agent_or_general[OF pr, THEN conjunct2, THEN conjunct1]
  from imp g have "fst ?r \<in> set (map fst (agents ?mgr))" by (rule mp)
  with g c show ?thesis unfolding example_manager_def by blast
qed

text \<open>
  Against C1 as it is worded: a configuration without an agent called \<^verbatim>\<open>general\<close>,
  and an answer of the model that names no agent. The router returns \<^verbatim>\<open>general\<close>,
  which is not a key of the agent set.
\<close>

theorem route_general_unconfigured_counterexample:
  "fst (route (example_env [])
          (router (AgentManager_init calendar_only_config example_registry))
          ''What is the weather?'' None (start_state [Inr ''weather'']))
     \<notin> set (map fst (agents (AgentManager_init calendar_only_config example_registry)))"
  by (simp add: example_eval calendar_only_config_def)

text \<open>
  \<^verbatim>\<open>strip()\<close> gives the text between its leading and its trailing whitespace; the
  whitespace characters and the letters \<^verbatim>\<open>lower()\<close> changes, spelled out.
\<close>

lemma py_strip_decompose:
  assumes w1: "\<forall>c\<in>set ws1. is_space c" and w2: "\<forall>c\<in>set ws2. is_space c"
    and core: "core \<noteq> [] \<longrightarrow> \<not> is_space (hd core) \<and> \<not> is_space (last core)"
  shows "py_strip (ws1 @ core @ ws2) = core"
proof (cases "core = []")
  case True
  have "\<forall>x\<in>set (ws1 @ core @ ws2). is_space x" using w1 w2 True by auto
  then have d: "dropWhile is_space (ws1 @ core @ ws2) = []"
    by (simp only: dropWhile_eq_Nil_conv)
  show ?thesis unfolding py_strip_def d using True by simp
next
  case False
  with core have h: "\<not> is_space (hd core)" and l: "\<not> is_space (last core)" by auto
  have a: "dropWhile is_space (ws1 @ core @ ws2) = core @ ws2"
  proof -
    have "dropWhile is_space (ws1 @ core @ ws2) = dropWhile is_space (core @ ws2)"
      by (rule dropWhile_append2) (use w1 in auto)
    also have "\<dots> = core @ ws2"
      using False h by (cases core) simp_all
    finally show ?thesis .
  qed
  have b: "dropWhile is_space (rev ws2 @ rev core) = rev core"
  proof -
    have "dropWhile is_space (rev ws2 @ rev core) = dropWhile is_space (rev core)"
      by (rule dropWhile_append2) (use w2 in auto)
    also have "\<dots> = rev core"
      using False l by (cases "rev core") (simp_all add: last_rev[symmetric] hd_rev)
    finally show ?thesis .
  qed
  show ?thesis by (simp add: py_strip_def a b)
qed

lemma is_space_iff:
  "is_space c \<longleftrightarrow>
     c \<in> set [CHR 0x09, CHR 0x0A, CHR 0x0B, CHR 0x0C, CHR 0x0D, CHR 0x1C, CHR 0x1D,
               CHR 0x1E, CHR 0x1F, CHR 0x20, CHR 0x85, CHR 0xA0]"
  by (simp add: is_space_def whitespace_chars_def)

lemma lower_char_table:
  "map lower_char upper_chars = lower_chars"
  by (simp add: lower_char_def upper_chars_def lower_chars_def)

lemma lower_char_other: "c \<notin> set upper_chars \<Longrightarrow> lower_char c = c"
proof -
  assume "c \<notin> set upper_chars"
  moreover have "length upper_chars = length lower_chars"
    by (simp add: upper_chars_def lower_chars_def)
  ultimately have "map_of (zip upper_chars lower_chars) c = None"
    by (simp add: map_of_zip_is_None)
  then show ?thesis by (simp add: lower_char_def)
qed

text \<open>
  Claim C5, as the code has it. When the model invocation returns a text, the router
  answers with the normalized text if that is one of its agent names and with
  \<^verbatim>\<open>general\<close> otherwise; when the invocation raises, with \<^verbatim>\<open>general\<close>. The
  normalization of a text made of whitespace, a core that neither starts nor ends with
  whitespace, and whitespace again is the core with every letter lower-cased and every
  double quote, single quote and period removed, wherever it stands. Whitespace is the
  twelve characters listed; lower-casing maps the listed upper-case letters to the
  listed lower-case ones and leaves every other character as it is.
\<close>

theorem route_postprocessing:
  "(chat env (router_model r) (route_messages r query) (router_temperature r) (world s) = (Inr raw, w')
      \<longrightarrow> fst (route env r query h s) =
            (if normalize_answer raw \<in> set (agent_names r) then normalize_answer raw else ''general''))
   \<and> (chat env (router_model r) (route_messages r query) (router_temperature r) (world s) = (Inl e, w')
      \<longrightarrow> fst (route env r query h s) = ''general'')
   \<and> ((\<forall>c\<in>set ws1. c \<in> set [CHR 0x09, CHR 0x0A, CHR 0x0B, CHR 0x0C, CHR 0x0D, CHR 0x1C,
                               CHR 0x1D, CHR 0x1E, CHR 0x1F, CHR 0x20, CHR 0x85, CHR 0xA0])
        \<and> (\<forall>c\<in>set ws2. c \<in> set [CHR 0x09, CHR 0x0A, CHR 0x0B, CHR 0x0C, CHR 0x0D, CHR 0x1C,
                               CHR 0x1D, CHR 0x1E, CHR 0x1F, CHR 0x20, CHR 0x85, CHR 0xA0])
        \<and> (core \<noteq> [] \<longrightarrow>
              hd core \<notin> set [CHR 0x09, CHR 0x0A, CHR 0x0B, CHR 0x0C, CHR 0x0D, CHR 0x1C,
                              CHR 0x1D, CHR 0x1E, CHR 0x1F, CHR 0x20, CHR 0x85, CHR 0xA0]
            \<and> last core \<notin> set [CHR 0x09, CHR 0x0A, CHR 0x0B, CHR 0x0C, CHR 0x0D, CHR 0x1C,
                                CHR 0x1D, CHR 0x1E, CHR 0x1F, CHR 0x20, CHR 0x85, CHR 0xA0])
      \<longrightarrow> normalize_answer (ws1 @ core @ ws2) =
            filter (\<lambda>c. c \<noteq> CHR 0x22 \<and> c \<noteq> CHR 0x27 \<and> c \<noteq> CHR ''.'') (map lower_char core))
   \<and> map lower_char
         (''ABCDEFGHIJKLMNOPQRSTUVWXYZ''
          @ [CHR 0xC0, CHR 0xC1, CHR 0xC2, CHR 0xC3, CHR 0xC4, CHR 0xC5, CHR 0xC6, CHR 0xC7,
             CHR 0xC8, CHR 0xC9, CHR 0xCA, CHR 0xCB, CHR 0xCC, CHR 0xCD, CHR 0xCE, CHR 0xCF,
             CHR 0xD0, CHR 0xD1, CHR 0xD2, CHR 0xD3, CHR 0xD4, CHR 0xD5, CHR 0xD6,
             CHR 0xD8, CHR 0xD9, CHR 0xDA, CHR 0xDB, CHR 0xDC, CHR 0xDD, CHR 0xDE])
       = ''abcdefghijklmnopqrstuvwxyz''
          @ [CHR 0xE0, CHR 0xE1, CHR 0xE2, CHR 0xE3, CHR 0xE4, CHR 0xE5, CHR 0xE6, CHR 0xE7,
             CHR 0xE8, CHR 0xE9, CHR 0xEA, CHR 0xEB, CHR 0xEC, CHR 0xED, CHR 0xEE, CHR 0xEF,
             CHR 0xF0, CHR 0xF1, CHR 0xF2, CHR 0xF3, CHR 0xF4, CHR 0xF5, CHR 0xF6,
             CHR 0xF8, CHR 0xF9, CHR 0xFA, CHR 0xFB, CHR 0xFC, CHR 0xFD, CHR 0xFE]
   \<and> (x \<notin> set (''ABCDEFGHIJKLMNOPQRSTUVWXYZ''
          @ [CHR 0xC0, CHR 0xC1, CHR 0xC2, CHR 0xC3, CHR 0xC4, CHR 0xC5, CHR 0xC6, CHR 0xC7,
             CHR 0xC8, CHR 0xC9, CHR 0xCA, CHR 0xCB, CHR 0xCC, CHR 0xCD, CHR 0xCE, CHR 0xCF,
             CHR 0xD0, CHR 0xD1, CHR 0xD2, CHR 0xD3, CHR 0xD4, CHR 0xD5, CHR 0xD6,
             CHR 0xD8, CHR 0xD9, CHR 0xDA, CHR 0xDB, CHR 0xDC, CHR 0xDD, CHR 0xDE])
      \<longrightarrow> lower_char x = x)"
proof -
  have r1: "fst (route env r query h s) =
            (if normalize_answer raw \<in> set (agent_names r) then normalize_answer raw else ''general'')"
    if "chat env (router_model r) (route_messages r query) (router_temperature r) (world s) = (Inr raw, w')"
    using that by (simp add: route_def ollama_chat_def Let_def)
  have r2: "fst (route env r query h s) = ''general''"
    if "chat env (router_model r) (route_messages r query) (router_temperature r) (world s) = (Inl e, w')"
    using that by (simp add: route_def ollama_chat_def)
  have n: "normalize_answer t =
             filter (\<lambda>c. c \<noteq> CHR 0x22 \<and> c \<noteq> CHR 0x27 \<and> c \<noteq> CHR ''.'') (map lower_char (py_strip t))"
    for t
    by (auto simp: normalize_answer_def remove_char_def py_lower_def intro: filter_cong)
  have r3: "normalize_answer (ws1 @ core @ ws2) =
            filter (\<lambda>c. c \<noteq> CHR 0x22 \<and> c \<noteq> CHR 0x27 \<and> c \<noteq> CHR ''.'') (map lower_char core)"
    if "\<forall>c\<in>set ws1. is_space c" "\<forall>c\<in>set ws2. is_space c"
       "core \<noteq> [] \<longrightarrow> \<not> is_space (hd core) \<and> \<not> is_space (last core)"
    using py_strip_decompose[OF that] by (simp add: n)
  have r4: "map lower_char upper_chars = lower_chars" by (rule lower_char_table)
  have r5: "x \<notin> set upper_chars \<longrightarrow> lower_char x = x" using lower_char_other by blast
  show ?thesis
    using r1 r2 r3 r4 r5
    unfolding is_space_iff upper_chars_def lower_chars_def
    by blast
qed

text \<open>
  The documented answers, with whitespace around them, and a failing backend:
  \<^verbatim>\<open>Calendar.\<close> between a space and a newline gives \<^verbatim>\<open>calendar\<close>, and so does
  \<^verbatim>\<open>CALENDAR\<close> between a no-break space and a next-line control;
  \<^verbatim>\<open>I'm not sure\<close> gives \<^verbatim>\<open>general\<close>, and so does an exception of the model
  invocation. An accented capital is lower-cased.
\<close>

theorem route_postprocessing_witness:
  "fst (route (example_env []) (router example_manager) ''What is on today?'' None
          (start_state [Inr '' Calendar.\<newline>''])) = ''calendar''
   \<and> fst (route (example_env []) (router example_manager) ''What is on today?'' None
          (start_state [Inr ([CHR 0xA0] @ ''CALENDAR'' @ [CHR 0x85])])) = ''calendar''
   \<and> fst (route (example_env []) (router example_manager) ''What is on today?'' None
          (start_state [Inr (''I'' @ [CHR 0x27] @ ''m not sure'')])) = ''general''
   \<and> fst (route (example_env []) (router example_manager) ''What is on today?'' None
          (start_state [Inl ''connection refused''])) = ''general''
   \<and> normalize_answer ('' Caf'' @ [CHR 0xC9] @ ''.\<newline>'') = ''caf'' @ [CHR 0xE9]"
proof -
  let ?r = "router example_manager"
  let ?q = "''What is on today?''"
  let ?raw1 = "'' Calendar.\<newline>''"
  let ?raw2 = "[CHR 0xA0] @ ''CALENDAR'' @ [CHR 0x85]"
  let ?raw3 = "''I'' @ [CHR 0x27] @ ''m not sure''"
  have names: "agent_names ?r = [''general'', ''calendar'', ''file_manager'']"
    by (simp add: example_eval example_manager_def example_config_def)
  have c1: "chat (example_env []) (router_model ?r) (route_messages ?r ?q) (router_temperature ?r)
              (world (start_state [Inr ?raw1])) = (Inr ?raw1, ([], []))"
    by (simp add: example_env_def scripted_chat_def start_state_def)
  have c2: "chat (example_env []) (router_model ?r) (route_messages ?r ?q) (router_temperature ?r)
              (world (start_state [Inr ?raw2])) = (Inr ?raw2, ([], []))"
    by (simp add: example_env_def scripted_chat_def start_state_def)
  have c3: "chat (example_env []) (router_model ?r) (route_messages ?r ?q) (router_temperature ?r)
              (world (start_state [Inr ?raw3])) = (Inr ?raw3, ([], []))"
    by (simp add: example_env_def scripted_chat_def start_state_def)
  have c4: "chat (example_env []) (router_model ?r) (route_messages ?r ?q) (router_temperature ?r)
              (world (start_state [Inl ''connection refused''])) = (Inl ''connection refused'', ([], []))"
    by (simp add: example_env_def scripted_chat_def start_state_def)
  note norm = route_postprocessing[THEN conjunct2, THEN conjunct2, THEN conjunct1, rule_format]
  have n1: "normalize_answer ('' '' @ ''Calendar.'' @ ''\<newline>'') = ''calendar''"
    by (subst norm) (simp_all add: lower_char_def upper_chars_def lower_chars_def)
  have n2: "normalize_answer ([CHR 0xA0] @ ''CALENDAR'' @ [CHR 0x85]) = ''calendar''"
    by (subst norm) (simp_all add: lower_char_def upper_chars_def lower_chars_def)
  have n3: "normalize_answer ([] @ (''I'' @ [CHR 0x27] @ ''m not sure'') @ []) = ''im not sure''"
    by (subst norm) (simp_all add: lower_char_def upper_chars_def lower_chars_def)
  have n4: "normalize_answer ('' '' @ (''Caf'' @ [CHR 0xC9] @ ''.'') @ ''\<newline>'') = ''caf'' @ [CHR 0xE9]"
    by (subst norm) (simp_all add: lower_char_def upper_chars_def lower_chars_def)
  note t1 = route_postprocessing[THEN conjunct1, rule_format, OF c1, of None]
  note t2 = route_postprocessing[THEN conjunct1, rule_format, OF c2, of None]
  note t3 = route_postprocessing[THEN conjunct1, rule_format, OF c3, of None]
  note t4 = route_postprocessing[THEN conjunct2, THEN conjunct1, rule_format, OF c4, of None]
  show ?thesis
    using t1 t2 t3 t4 n1 n2 n3 n4 by (simp add: names)
qed

text \<open>
  Against C5 as it is worded: a period inside the answer does not surround it, so the
  worded post-processing keeps \<^verbatim>\<open>cal.endar\<close> and falls back, while the router
  removes the period and selects \<^verbatim>\<open>calendar\<close>.
\<close>

theorem route_interior_period_counterexample:
  "fst (route (example_env []) (router example_manager) ''What is on today?'' None
          (start_state [Inr ''cal.endar'']))
     \<noteq> spec_route_decision (agent_names (router example_manager)) ''cal.endar''"
  by (simp add: example_eval example_manager_def example_config_def
      spec_route_decision_def spec_strip_surrounding_def)

section \<open>The manager's operations\<close>

lemmas text_eval =
  tool_block_def extract_tool_calls_def findall_tool_blocks_def match_here_def starts_with_def
  is_space_def whitespace_chars_def py_strip_def loads_of_def

lemmas agent_eval =
  Agent_init_def example_env_def scripted_chat_def start_state_def ollama_chat_def execute_def
  execute_tool_def dict_get_def format_value_def failure_def Let_def

text \<open>
  Claim C7. For a name that is not a key of the agent set, \<^verbatim>\<open>execute_with_agent\<close>
  returns the error-shaped result, \<^verbatim>\<open>agent_used\<close> being \<^verbatim>\<open>error\<close> and
  \<^verbatim>\<open>tools_used\<close> empty, and the state outside, log of invocations included, is as it
  was. For a known name the result is that of the agent's own \<^verbatim>\<open>execute\<close> under the
  requested name, whatever router the manager holds.
\<close>

theorem execute_with_agent_bypasses_router:
  "(agent_name \<notin> set (map fst (agents mgr)) \<longrightarrow>
      execute_with_agent env mgr agent_name q h s =
        (Inr \<lparr>response = ''Error: Agent '' @ [CHR 0x27] @ agent_name @ [CHR 0x27] @ '' not found'',
              tools_used = [], agent_used = ''error''\<rparr>, s))
   \<and> (agent_name \<in> set (map fst (agents mgr)) \<longrightarrow>
        (\<exists>a. map_of (agents mgr) agent_name = Some a
           \<and> execute_with_agent env (mgr\<lparr>router := r\<rparr>) agent_name q h s =
               (case execute env a q h s of
                  (Inl e, s1) \<Rightarrow> (Inl e, s1)
                | (Inr result, s1) \<Rightarrow>
                    (Inr \<lparr>response = response result, tools_used = tools_used result,
                          agent_used = agent_name\<rparr>, s1))))"
proof (intro conjI impI)
  assume "agent_name \<notin> set (map fst (agents mgr))"
  then have "map_of (agents mgr) agent_name = None"
    by (simp add: map_of_eq_None_iff)
  then show "execute_with_agent env mgr agent_name q h s =
        (Inr \<lparr>response = ''Error: Agent '' @ [CHR 0x27] @ agent_name @ [CHR 0x27] @ '' not found'',
              tools_used = [], agent_used = ''error''\<rparr>, s)"
    by (simp add: execute_with_agent_def)
next
  assume "agent_name \<in> set (map fst (agents mgr))"
  then obtain a where a: "map_of (agents mgr) agent_name = Some a"
    by (cases "map_of (agents mgr) agent_name") (auto simp: map_of_eq_None_iff)
  then show "\<exists>a. map_of (agents mgr) agent_name = Some a
           \<and> execute_with_agent env (mgr\<lparr>router := r\<rparr>) agent_name q h s =
               (case execute env a q h s of
                  (Inl e, s1) \<Rightarrow> (Inl e, s1)
                | (Inr result, s1) \<Rightarrow>
                    (Inr \<lparr>response = response result, tools_used = tools_used result,
                          agent_used = agent_name\<rparr>, s1))"
    by (simp add: execute_with_agent_def)
qed

text \<open>
  On the example manager: \<^verbatim>\<open>nobody\<close> is answered with the error result and the
  backend's reply is still waiting; \<^verbatim>\<open>general\<close> answers with the reply.
\<close>

theorem execute_with_agent_bypasses_router_witness:
  "''nobody'' \<notin> set (map fst (agents example_manager))
   \<and> execute_with_agent (example_env []) example_manager ''nobody'' ''Hello'' None
        (start_state [Inr ''Hi!''])
       = (Inr \<lparr>response = ''Error: Agent '' @ [CHR 0x27] @ ''nobody'' @ [CHR 0x27] @ '' not found'',
               tools_used = [], agent_used = ''error''\<rparr>, start_state [Inr ''Hi!''])
   \<and> ''general'' \<in> set (map fst (agents example_manager))
   \<and> fst (execute_with_agent (example_env []) example_manager ''general'' ''Hello'' None
        (start_state [Inr ''Hi!'']))
       = Inr \<lparr>response = ''Hi!'', tools_used = [], agent_used = ''general''\<rparr>"
proof -
  let ?mgr = "example_manager"
  have n: "''nobody'' \<notin> set (map fst (agents ?mgr))"
    by (simp add: example_eval example_manager_def example_config_def)
  have g: "''general'' \<in> set (map fst (agents ?mgr))"
    by (simp add: example_eval example_manager_def example_config_def)
  note t1 = execute_with_agent_bypasses_router[THEN conjunct1, rule_format, OF n,
      of "example_env []" "''Hello''" None "start_state [Inr ''Hi!'']"]
  from execute_with_agent_bypasses_router[THEN conjunct2, rule_format, OF g,
      of "example_env []" "router ?mgr" "''Hello''" None "start_state [Inr ''Hi!'']"]
  obtain a where a: "map_of (agents ?mgr) ''general'' = Some a"
    and e: "execute_with_agent (example_env []) (?mgr\<lparr>router := router ?mgr\<rparr>) ''general''
              ''Hello'' None (start_state [Inr ''Hi!'']) =
               (case execute (example_env []) a ''Hello'' None (start_state [Inr ''Hi!'']) of
                  (Inl e, s1) \<Rightarrow> (Inl e, s1)
                | (Inr result, s1) \<Rightarrow>
                    (Inr \<lparr>response = response result, tools_used = tools_used result,
                          agent_used = ''general''\<rparr>, s1))"
    by blast
  have a': "a = Agent_init ''general''
              \<lparr>cfg_model = Some ''ministral:3b'',
               cfg_description = Some ''General conversation and questions'',
               cfg_temperature = Some (7 / 10), cfg_tools = None\<rparr> example_registry"
    using a by (simp add: example_eval example_manager_def example_config_def)
  have "fst (execute_with_agent (example_env []) ?mgr ''general'' ''Hello'' None
          (start_state [Inr ''Hi!'']))
        = Inr \<lparr>response = ''Hi!'', tools_used = [], agent_used = ''general''\<rparr>"
    using e unfolding a' by (simp add: text_eval agent_eval)
  with n g t1 show ?thesis by simp
qed

text \<open>
  Claim C9. \<^verbatim>\<open>get_agent_list\<close> gives back the manager and the state outside as it
  received them, a second call gives the same listing, and the listing maps each agent
  name, in the order of the agent set, to the description, model and tools of its agent.
\<close>

theorem get_agent_list_pure:
  "snd (get_agent_list mgr s) = (mgr, s)
   \<and> get_agent_list (fst (snd (get_agent_list mgr s))) (snd (snd (get_agent_list mgr s)))
       = get_agent_list mgr s
   \<and> map fst (fst (get_agent_list mgr s)) = map fst (agents mgr)
   \<and> map_of (fst (get_agent_list mgr s)) nm = map_option agent_info_of (map_of (agents mgr) nm)"
proof -
  have "map_of (map (\<lambda>(nm, a). (nm, agent_info_of a)) xs) nm
          = map_option agent_info_of (map_of xs nm)" for xs :: "(string \<times> 'a agent) list"
    by (induction xs) auto
  then show ?thesis by (simp add: get_agent_list_def comp_def case_prod_unfold)
qed

section \<open>Tool dispatch\<close>

lemma execute_tool_raises:
  assumes "map_of kvs ''tool'' = Some (JStr n)"
    and "tools (tool_registry a) n = Some f"
    and "n \<in> set (tool_names a)"
    and "f (dict_get kvs ''params'' (JObj [])) (world s) = (Inl msg, w')"
  shows "execute_tool env a (JObj kvs) s =
           (Inr (failure msg),
            \<lparr>world = w', trace = trace s @ [ToolCall n (dict_get kvs ''params'' (JObj []))]\<rparr>)"
  using assms by (simp add: execute_tool_def dict_get_def Let_def format_value_def)

lemma run_tool_calls_append:
  "run_tool_calls env a (xs @ ys) s =
     (case run_tool_calls env a xs s of
        (Inl e, s1) \<Rightarrow> (Inl e, s1)
      | (Inr (u1, r1), s1) \<Rightarrow>
          (case run_tool_calls env a ys s1 of
             (Inl e, s2) \<Rightarrow> (Inl e, s2)
           | (Inr (u2, r2), s2) \<Rightarrow> (Inr (u1 @ u2, r1 @ r2), s2)))"
  by (induction xs arbitrary: s) (auto split: prod.splits sum.splits)

lemma run_tool_calls_lengths:
  "run_tool_calls env a calls s = (Inr (used, results), s') \<Longrightarrow>
     length used = length calls \<and> length results = length calls"
  by (induction calls arbitrary: s used results s') (auto split: prod.splits sum.splits)

lemma execute_unfold:
  assumes "ollama_chat env (model a) (build_messages a prompt h) (temperature a) s0 = (Inr reply, sA)"
    and "extract_tool_calls (json_loads env) reply = Inr calls"
    and "calls \<noteq> []"
  shows "execute env a prompt h s0 =
     (case run_tool_calls env a calls sA of
        (Inl e, s2) \<Rightarrow> (Inl e, s2)
      | (Inr (used, results), s2) \<Rightarrow>
          (case ollama_chat env (model a)
                  (build_messages a prompt h
                   @ [\<lparr>role = ''assistant'', content = reply\<rparr>,
                      \<lparr>role = ''user'', content = build_synthesis_prompt env prompt results\<rparr>])
                  (temperature a) s2 of
             (Inl e, s3) \<Rightarrow> (Inl (ChatError e), s3)
           | (Inr final_response, s3) \<Rightarrow>
               (Inr \<lparr>response = final_response, tools_used = used\<rparr>, s3)))"
proof (cases "run_tool_calls env a calls sA")
  case (Pair r2 s2)
  show ?thesis
  proof (cases r2)
    case (Inl e)
    with Pair assms show ?thesis by (simp add: execute_def)
  next
    case (Inr ur)
    obtain used results where ur: "ur = (used, results)" by (cases ur)
    from run_tool_calls_lengths[of env a calls sA used results s2] Pair Inr ur assms(3)
    have "results \<noteq> []" by auto
    with Pair Inr ur assms show ?thesis by (simp add: execute_def Let_def)
  qed
qed

text \<open>
  Claim C8. A call whose tool is registered and on the agent's list, and whose tool
  function raises with message \<open>msg\<close>: \<^verbatim>\<open>_execute_tool\<close> returns the dict with
  \<^verbatim>\<open>success\<close> false and \<^verbatim>\<open>error\<close> \<open>msg\<close>; the loop over the extracted calls goes on with the calls after it, from
  the state the tool left, and has this call's name and failure at its place; and
  \<^verbatim>\<open>execute\<close> goes on to the synthesis pass with them, so that what can leave it is
  an exception of a later call's dispatch or of the model, not the tool's.
\<close>

theorem tool_exception_is_caught:
  assumes pre: "run_tool_calls env a pre sA = (Inr (u1, r1), s)"
    and tool: "map_of kvs ''tool'' = Some (JStr n)"
    and reg: "tools (tool_registry a) n = Some f"
    and allowed: "n \<in> set (tool_names a)"
    and raises: "f (dict_get kvs ''params'' (JObj [])) (world s) = (Inl msg, w')"
  shows "execute_tool env a (JObj kvs) s =
           (Inr (JObj [(''success'', JBool False), (''error'', JStr msg)]),
            \<lparr>world = w', trace = trace s @ [ToolCall n (dict_get kvs ''params'' (JObj []))]\<rparr>)
    \<and> run_tool_calls env a (pre @ JObj kvs # post) sA =
        (case run_tool_calls env a post
                \<lparr>world = w', trace = trace s @ [ToolCall n (dict_get kvs ''params'' (JObj []))]\<rparr> of
           (Inl e, s2) \<Rightarrow> (Inl e, s2)
         | (Inr (u2, r2), s2) \<Rightarrow>
             (Inr (u1 @ JStr n # u2,
                   r1 @ JObj [(''success'', JBool False), (''error'', JStr msg)] # r2), s2))
    \<and> (ollama_chat env (model a) (build_messages a prompt h) (temperature a) s0 = (Inr reply, sA)
         \<and> extract_tool_calls (json_loads env) reply = Inr (pre @ JObj kvs # post)
       \<longrightarrow> execute env a prompt h s0 =
        (case run_tool_calls env a post
                \<lparr>world = w', trace = trace s @ [ToolCall n (dict_get kvs ''params'' (JObj []))]\<rparr> of
           (Inl e, s2) \<Rightarrow> (Inl e, s2)
         | (Inr (u2, r2), s2) \<Rightarrow>
             (case ollama_chat env (model a)
                     (build_messages a prompt h
                      @ [\<lparr>role = ''assistant'', content = reply\<rparr>,
                         \<lparr>role = ''user'',
                          content = build_synthesis_prompt env prompt
                            (r1 @ JObj [(''success'', JBool False), (''error'', JStr msg)] # r2)\<rparr>])
                     (temperature a) s2 of
                (Inl e, s3) \<Rightarrow> (Inl (ChatError e), s3)
              | (Inr final_response, s3) \<Rightarrow>
                  (Inr \<lparr>response = final_response, tools_used = u1 @ JStr n # u2\<rparr>, s3))))"
proof -
  let ?s1 = "\<lparr>world = w', trace = trace s @ [ToolCall n (dict_get kvs ''params'' (JObj []))]\<rparr>"
  let ?f = "JObj [(''success'', JBool False), (''error'', JStr msg)]"
  have a: "execute_tool env a (JObj kvs) s = (Inr ?f, ?s1)"
    using execute_tool_raises[OF tool reg allowed raises] by (simp add: failure_def)
  have one: "run_tool_calls env a (JObj kvs # post) s =
        (case run_tool_calls env a post ?s1 of
           (Inl e, s2) \<Rightarrow> (Inl e, s2)
         | (Inr (u2, r2), s2) \<Rightarrow> (Inr (JStr n # u2, ?f # r2), s2))"
    by (simp add: a tool)
  have b: "run_tool_calls env a (pre @ JObj kvs # post) sA =
        (case run_tool_calls env a post ?s1 of
           (Inl e, s2) \<Rightarrow> (Inl e, s2)
         | (Inr (u2, r2), s2) \<Rightarrow> (Inr (u1 @ JStr n # u2, r1 @ ?f # r2), s2))"
    by (simp add: run_tool_calls_append[of env a pre "JObj kvs # post" sA] pre one
        del: run_tool_calls.simps split: prod.splits sum.splits)
  have c: "execute env a prompt h s0 =
        (case run_tool_calls env a post ?s1 of
           (Inl e, s2) \<Rightarrow> (Inl e, s2)
         | (Inr (u2, r2), s2) \<Rightarrow>
             (case ollama_chat env (model a)
                     (build_messages a prompt h
                      @ [\<lparr>role = ''assistant'', content = reply\<rparr>,
                         \<lparr>role = ''user'',
                          content = build_synthesis_prompt env prompt (r1 @ ?f # r2)\<rparr>])
                     (temperature a) s2 of
                (Inl e, s3) \<Rightarrow> (Inl (ChatError e), s3)
              | (Inr final_response, s3) \<Rightarrow>
                  (Inr \<lparr>response = final_response, tools_used = u1 @ JStr n # u2\<rparr>, s3)))"
    if c1: "ollama_chat env (model a) (build_messages a prompt h) (temperature a) s0 = (Inr reply, sA)"
      and c2: "extract_tool_calls (json_loads env) reply = Inr (pre @ JObj kvs # post)"
    by (simp add: execute_unfold[OF c1 c2] b split: prod.splits sum.splits)
  from a b c show ?thesis by blast
qed

text \<open>
  A \<^verbatim>\<open>write_file\<close> call without arguments raises and is answered with the failure
  dict; the \<^verbatim>\<open>write_file\<close> call after it still writes \<^verbatim>\<open>a.txt\<close>, both names are
  in \<^verbatim>\<open>tools_used\<close>, the synthesis instruction carries both results in order, and
  the response is the synthesis text.
\<close>

theorem tool_exception_is_caught_witness:
  "fst (execute (example_env example_documents) file_manager_agent ''Save hi to a.txt'' None
          (start_state [Inr (tool_block doc_write_no_args @ tool_block doc_write_a_txt),
                        Inr ''Saved.'']))
     = Inr \<lparr>response = ''Saved.'', tools_used = [JStr ''write_file'', JStr ''write_file'']\<rparr>
   \<and> snd (world (snd (execute (example_env example_documents) file_manager_agent
          ''Save hi to a.txt'' None
          (start_state [Inr (tool_block doc_write_no_args @ tool_block doc_write_a_txt),
                        Inr ''Saved.''])))) = [(''a.txt'', ''hi'')]
   \<and> content (last (last_invocation_messages (trace (snd
          (execute (example_env example_documents) file_manager_agent ''Save hi to a.txt'' None
          (start_state [Inr (tool_block doc_write_no_args @ tool_block doc_write_a_txt),
                        Inr ''Saved.'']))))))
       = expected_synthesis_prompt
   \<and> fst (execute_tool (example_env example_documents) file_manager_agent
          (JObj [(''tool'', JStr ''write_file''), (''params'', JObj [])]) (start_state []))
       = Inr (JObj [(''success'', JBool False),
                    (''error'', JStr ''write_file() missing required arguments'')])"
proof -
  let ?env = "example_env example_documents"
  let ?a = "file_manager_agent"
  let ?reply = "tool_block doc_write_no_args @ tool_block doc_write_a_txt"
  let ?s0 = "start_state [Inr ?reply, Inr ''Saved.'']"
  let ?msgs = "build_messages ?a ''Save hi to a.txt'' None"
  let ?sA = "\<lparr>world = ([Inr ''Saved.''], []),
              trace = [ChatCall (model ?a) ?msgs (temperature ?a)]\<rparr> :: example_world state"
  let ?kvs = "[(''tool'', JStr ''write_file''), (''params'', JObj [])]"
  let ?good = "JObj [(''tool'', JStr ''write_file''),
                     (''params'', JObj [(''file_path'', JStr ''a.txt''), (''content'', JStr ''hi'')])]"
  have pre: "run_tool_calls ?env ?a [] ?sA = (Inr ([], []), ?sA)" by simp
  have pre0: "run_tool_calls ?env ?a [] (start_state []) = (Inr ([], []), start_state [])" by simp
  have tool: "map_of ?kvs ''tool'' = Some (JStr ''write_file'')" by simp
  have reg: "tools (tool_registry ?a) ''write_file'' = Some example_write_file"
    by (simp add: file_manager_agent_def Agent_init_def example_registry_def)
  have allowed: "''write_file'' \<in> set (tool_names ?a)"
    by (simp add: file_manager_agent_def Agent_init_def)
  have raises: "example_write_file (dict_get ?kvs ''params'' (JObj [])) (world ?sA)
                  = (Inl ''write_file() missing required arguments'', ([Inr ''Saved.''], []))"
    by (simp add: example_write_file_def dict_get_def)
  have raises0: "example_write_file (dict_get ?kvs ''params'' (JObj [])) (world (start_state []))
                  = (Inl ''write_file() missing required arguments'', ([], []))"
    by (simp add: example_write_file_def dict_get_def start_state_def)
  have c1: "ollama_chat ?env (model ?a) ?msgs (temperature ?a) ?s0 = (Inr ?reply, ?sA)"
    by (simp add: ollama_chat_def example_env_def scripted_chat_def start_state_def)
  have c2: "extract_tool_calls (json_loads ?env) ?reply = Inr ([] @ JObj ?kvs # [?good])"
    by (simp add: text_eval example_env_def example_documents_def doc_write_no_args_def
        doc_write_a_txt_def doc_delete_def)
  note th = tool_exception_is_caught[OF pre tool reg allowed raises,
      THEN conjunct2, THEN conjunct2, rule_format, OF conjI[OF c1 c2]]
  note th0 = tool_exception_is_caught[OF pre0 tool reg allowed raises0, THEN conjunct1]
  have e: "fst (execute_tool ?env ?a (JObj ?kvs) (start_state []))
       = Inr (JObj [(''success'', JBool False),
                    (''error'', JStr ''write_file() missing required arguments'')])"
    unfolding th0 by simp
  show ?thesis
    unfolding th
    using e
    by (simp add: agent_eval file_manager_agent_def example_registry_def example_write_file_def
        last_invocation_messages_def expected_synthesis_prompt_def build_synthesis_prompt_def
        example_dumps_def dumped_missing_arguments_def dumped_written_def str_nat.simps)
qed

subsection \<open>Refused calls\<close>

text \<open>
  A call whose tool name is a string \<open>n\<close> that is not registered, or is registered and
  not on the agent's list: \<^verbatim>\<open>_execute_tool\<close> returns the dict with \<^verbatim>\<open>success\<close> false
  and an \<^verbatim>\<open>error\<close> that says which of the two it is, and the state outside is as it
  was, so no tool function has run and no tool call is logged; the loop over the
  extracted calls has the name and the failure at the call's place; and \<^verbatim>\<open>execute\<close>
  hands the results with that failure to the synthesis pass and returns the name in
  \<^verbatim>\<open>tools_used\<close>.
\<close>

lemma string_name_is_refused:
  defines "refusal \<equiv> (\<lambda>reg n. if tools reg n = None then ''Tool '' @ n @ '' not found''
                                else ''Tool '' @ n @ '' not available to this agent'')"
  assumes pre: "run_tool_calls env a pre sA = (Inr (u1, r1), s)"
    and tool: "map_of kvs ''tool'' = Some (JStr n)"
    and gate: "tools (tool_registry a) n = None \<or> n \<notin> set (tool_names a)"
  shows "execute_tool env a (JObj kvs) s = (Inr (JObj [(''success'', JBool False),
              (''error'', JStr (refusal (tool_registry a) n))]), s)
    \<and> run_tool_calls env a (pre @ JObj kvs # post) sA =
        (case run_tool_calls env a post s of
           (Inl e, s2) \<Rightarrow> (Inl e, s2)
         | (Inr (u2, r2), s2) \<Rightarrow>
             (Inr (u1 @ JStr n # u2, r1 @ JObj [(''success'', JBool False),
              (''error'', JStr (refusal (tool_registry a) n))] # r2), s2))
    \<and> (ollama_chat env (model a) (build_messages a prompt h) (temperature a) s0 = (Inr reply, sA)
         \<and> extract_tool_calls (json_loads env) reply = Inr (pre @ JObj kvs # post)
       \<longrightarrow> execute env a prompt h s0 =
        (case run_tool_calls env a post s of
           (Inl e, s2) \<Rightarrow> (Inl e, s2)
         | (Inr (u2, r2), s2) \<Rightarrow>
             (case ollama_chat env (model a)
                     (build_messages a prompt h
                      @ [\<lparr>role = ''assistant'', content = reply\<rparr>,
                         \<lparr>role = ''user'',
                          content = build_synthesis_prompt env prompt
                                      (r1 @ JObj [(''success'', JBool False),
              (''error'', JStr (refusal (tool_registry a) n))] # r2)\<rparr>])
                     (temperature a) s2 of
                (Inl e, s3) \<Rightarrow> (Inl (ChatError e), s3)
              | (Inr final_response, s3) \<Rightarrow>
                  (Inr \<lparr>response = final_response, tools_used = u1 @ JStr n # u2\<rparr>, s3))))"
proof -
  let ?f = "JObj [(''success'', JBool False),
              (''error'', JStr (refusal (tool_registry a) n))]"
  have a: "execute_tool env a (JObj kvs) s = (Inr ?f, s)"
    using tool gate
    by (auto simp: execute_tool_def dict_get_def Let_def format_value_def refusal_def
        failure_def split: bool.splits)
  have one: "run_tool_calls env a (JObj kvs # post) s =
        (case run_tool_calls env a post s of
           (Inl e, s2) \<Rightarrow> (Inl e, s2)
         | (Inr (u2, r2), s2) \<Rightarrow> (Inr (JStr n # u2, ?f # r2), s2))"
    by (simp add: a tool)
  have b: "run_tool_calls env a (pre @ JObj kvs # post) sA =
        (case run_tool_calls env a post s of
           (Inl e, s2) \<Rightarrow> (Inl e, s2)
         | (Inr (u2, r2), s2) \<Rightarrow> (Inr (u1 @ JStr n # u2, r1 @ ?f # r2), s2))"
    by (simp add: run_tool_calls_append[of env a pre "JObj kvs # post" sA] pre one
        del: run_tool_calls.simps split: prod.splits sum.splits)
  have c: "execute env a prompt h s0 =
        (case run_tool_calls env a post s of
           (Inl e, s2) \<Rightarrow> (Inl e, s2)
         | (Inr (u2, r2), s2) \<Rightarrow>
             (case ollama_chat env (model a)
                     (build_messages a prompt h
                      @ [\<lparr>role = ''assistant'', content = reply\<rparr>,
                         \<lparr>role = ''user'',
                          content = build_synthesis_prompt env prompt (r1 @ ?f # r2)\<rparr>])
                     (temperature a) s2 of
                (Inl e, s3) \<Rightarrow> (Inl (ChatError e), s3)
              | (Inr final_response, s3) \<Rightarrow>
                  (Inr \<lparr>response = final_response, tools_used = u1 @ JStr n # u2\<rparr>, s3)))"
    if c1: "ollama_chat env (model a) (build_messages a prompt h) (temperature a) s0 = (Inr reply, sA)"
      and c2: "extract_tool_calls (json_loads env) reply = Inr (pre @ JObj kvs # post)"
    by (simp add: execute_unfold[OF c1 c2] b split: prod.splits sum.splits)
  from a b c show ?thesis by blast
qed

text \<open>
  The agent without tools is handed a \<^verbatim>\<open>write_file\<close> block and a block for a tool
  nobody registered: both names are in \<^verbatim>\<open>tools_used\<close>, the response is the synthesis
  text, no file is written and no tool call is logged.
\<close>

lemma string_name_is_refused_example:
  "fst (execute (example_env example_documents) general_agent ''Save hi to a.txt'' None
          (start_state [Inr (tool_block doc_write_a_txt @ tool_block doc_delete),
                        Inr ''I cannot do that.'']))
     = Inr \<lparr>response = ''I cannot do that.'',
             tools_used = [JStr ''write_file'', JStr ''delete_file'']\<rparr>
   \<and> world (snd (execute (example_env example_documents) general_agent
          ''Save hi to a.txt'' None
          (start_state [Inr (tool_block doc_write_a_txt @ tool_block doc_delete),
                        Inr ''I cannot do that.'']))) = ([], [])
   \<and> filter (\<lambda>ev. case ev of ToolCall nm ps \<Rightarrow> True | _ \<Rightarrow> False)
        (trace (snd (execute (example_env example_documents) general_agent
          ''Save hi to a.txt'' None
          (start_state [Inr (tool_block doc_write_a_txt @ tool_block doc_delete),
                        Inr ''I cannot do that.''])))) = []"
proof -
  let ?env = "example_env example_documents"
  let ?a = "general_agent"
  let ?reply = "tool_block doc_write_a_txt @ tool_block doc_delete"
  let ?s0 = "start_state [Inr ?reply, Inr ''I cannot do that.'']"
  let ?msgs = "build_messages ?a ''Save hi to a.txt'' None"
  let ?sA = "\<lparr>world = ([Inr ''I cannot do that.''], []),
              trace = [ChatCall (model ?a) ?msgs (temperature ?a)]\<rparr> :: example_world state"
  let ?kvs = "[(''tool'', JStr ''write_file''),
               (''params'', JObj [(''file_path'', JStr ''a.txt''), (''content'', JStr ''hi'')])]"
  let ?del = "JObj [(''tool'', JStr ''delete_file''),
                    (''params'', JObj [(''file_path'', JStr ''a.txt'')])]"
  have pre: "run_tool_calls ?env ?a [] ?sA = (Inr ([], []), ?sA)" by simp
  have tool: "map_of ?kvs ''tool'' = Some (JStr ''write_file'')" by simp
  have gate: "tools (tool_registry ?a) ''write_file'' = None
                \<or> ''write_file'' \<notin> set (tool_names ?a)"
    by (simp add: general_agent_def Agent_init_def)
  have c1: "ollama_chat ?env (model ?a) ?msgs (temperature ?a) ?s0 = (Inr ?reply, ?sA)"
    by (simp add: ollama_chat_def example_env_def scripted_chat_def start_state_def)
  have c2: "extract_tool_calls (json_loads ?env) ?reply = Inr ([] @ JObj ?kvs # [?del])"
    by (simp add: text_eval example_env_def example_documents_def doc_write_no_args_def
        doc_write_a_txt_def doc_delete_def)
  note th = string_name_is_refused[OF pre tool gate,
      THEN conjunct2, THEN conjunct2, rule_format, OF conjI[OF c1 c2]]
  show ?thesis
    unfolding th
    by (simp add: agent_eval general_agent_def example_registry_def)
qed

subsection \<open>Calls of the documented shape\<close>

text \<open>
  What the dispatch does for every call that is a JSON object with a string under
  \<^verbatim>\<open>"tool"\<close>: only a call whose name is registered and on the agent's list has an
  effect; the loop returns one name and one result per call; and the extraction, on
  blocks that parse to objects or not at all, returns in order the objects that have the
  key.
\<close>

lemma execute_tool_no_effect_unless_allowed:
  assumes "\<not> (\<exists>kvs n. c = JObj kvs \<and> dict_get kvs ''tool'' JNull = JStr n
                \<and> tools (tool_registry a) n \<noteq> None \<and> n \<in> set (tool_names a))"
  shows "snd (execute_tool env a c s) = s"
proof (cases c)
  case (JObj kvs)
  show ?thesis
  proof (cases "dict_get kvs ''tool'' JNull")
    case (JStr n)
    with JObj assms have "tools (tool_registry a) n = None \<or> n \<notin> set (tool_names a)" by auto
    with JObj JStr show ?thesis by (auto simp: execute_tool_def Let_def split: bool.splits)
  qed (simp_all add: JObj execute_tool_def Let_def)
qed (simp_all add: execute_tool_def)

lemma is_tool_call_iff:
  "is_tool_call c \<longleftrightarrow> (\<exists>kvs n. c = JObj kvs \<and> map_of kvs ''tool'' = Some (JStr n))"
proof (cases c)
  case (JObj kvs)
  show ?thesis
  proof (cases "map_of kvs ''tool''")
    case None
    with JObj show ?thesis by (simp add: is_tool_call_def)
  next
    case (Some v)
    with JObj show ?thesis by (cases v) (simp_all add: is_tool_call_def)
  qed
qed (simp_all add: is_tool_call_def)

lemma execute_tool_returns:
  assumes "is_tool_call c"
  shows "\<exists>r s'. execute_tool env a c s = (Inr r, s')"
proof -
  from assms obtain kvs n where c: "c = JObj kvs" and n: "map_of kvs ''tool'' = Some (JStr n)"
    by (auto simp: is_tool_call_iff)
  show ?thesis
    unfolding c
    by (auto simp: execute_tool_def dict_get_def Let_def n
        split: option.splits prod.splits sum.splits bool.splits)
qed

lemma run_tool_calls_returns:
  assumes "\<forall>c\<in>set calls. is_tool_call c"
  shows "\<exists>used results s'. run_tool_calls env a calls s = (Inr (used, results), s')
           \<and> length used = length calls \<and> length results = length calls"
  using assms
proof (induction calls arbitrary: s)
  case Nil
  then show ?case by simp
next
  case (Cons c calls)
  then have c: "is_tool_call c" and rest: "\<forall>c\<in>set calls. is_tool_call c" by auto
  from execute_tool_returns[OF c, of env a s]
  obtain r s1 where e: "execute_tool env a c s = (Inr r, s1)" by blast
  from c obtain v where g: "getitem_tool c = Inr v"
    by (auto simp: is_tool_call_iff)
  from Cons.IH[OF rest, of s1]
  obtain used results s2 where r2: "run_tool_calls env a calls s1 = (Inr (used, results), s2)"
    and l: "length used = length calls" "length results = length calls" by blast
  show ?case using e g r2 l by simp
qed

lemma extract_loop_objects:
  assumes "\<forall>m\<in>set ms. loads (py_strip m) = JSONDecodeError
                      \<or> (\<exists>kvs. loads (py_strip m) = Loaded (JObj kvs))"
  shows "extract_loop loads ms =
           Inr (filter (\<lambda>d. contains_tool d = Inr True)
                  (List.map_filter
                     (\<lambda>m. case loads (py_strip m) of Loaded d \<Rightarrow> Some d | _ \<Rightarrow> None) ms))"
  using assms
proof (induction ms)
  case Nil
  then show ?case by simp
next
  case (Cons m ms)
  then have ih: "extract_loop loads ms =
           Inr (filter (\<lambda>d. contains_tool d = Inr True)
                  (List.map_filter
                     (\<lambda>m. case loads (py_strip m) of Loaded d \<Rightarrow> Some d | _ \<Rightarrow> None) ms))"
    by simp
  from Cons.prems
  consider "loads (py_strip m) = JSONDecodeError"
    | kvs where "loads (py_strip m) = Loaded (JObj kvs)" by auto
  then show ?case
    by cases (simp_all add: ih)
qed

text \<open>An exception of \<^verbatim>\<open>json.loads\<close> other than \<^verbatim>\<open>JSONDecodeError\<close> leaves the loop.\<close>

lemma extract_loop_loads_raises:
  "loads (py_strip m) = LoadsRaised e \<Longrightarrow> extract_loop loads (m # ms) = Inl e"
  by simp

text \<open>
  One block that parses, one that does not, one that parses: the two calls come back in
  their order and the broken block is dropped.
\<close>

lemma extract_drops_broken_block:
  "extract_tool_calls (loads_of example_documents)
     (''Saving.'' @ tool_block doc_write_no_args @ ''\<newline>'' @ tool_block doc_broken
      @ tool_block doc_write_a_txt)
   = Inr [JObj [(''tool'', JStr ''write_file''), (''params'', JObj [])],
          JObj [(''tool'', JStr ''write_file''),
                (''params'', JObj [(''file_path'', JStr ''a.txt''), (''content'', JStr ''hi'')])]]"
  by (simp add: text_eval example_documents_def doc_write_no_args_def doc_write_a_txt_def
      doc_delete_def doc_broken_def)

lemma execute_no_calls:
  assumes "ollama_chat env (model a) (build_messages a prompt h) (temperature a) s0 = (Inr reply, sA)"
    and "extract_tool_calls (json_loads env) reply = Inr []"
  shows "execute env a prompt h s0 = (Inr \<lparr>response = reply, tools_used = []\<rparr>, sA)"
  using assms by (simp add: execute_def)

lemma execute_two_pass:
  assumes c1: "ollama_chat env (model a) (build_messages a prompt h) (temperature a) s0 = (Inr reply, sA)"
    and c2: "extract_tool_calls (json_loads env) reply = Inr calls"
    and ne: "calls \<noteq> []"
    and shape: "\<forall>c\<in>set calls. is_tool_call c"
  shows "\<exists>used results s2.
           run_tool_calls env a calls sA = (Inr (used, results), s2)
         \<and> length results = length calls
         \<and> execute env a prompt h s0 =
             (case ollama_chat env (model a)
                     (build_messages a prompt h
                      @ [\<lparr>role = ''assistant'', content = reply\<rparr>,
                         \<lparr>role = ''user'', content = build_synthesis_prompt env prompt results\<rparr>])
                     (temperature a) s2 of
                (Inl e, s3) \<Rightarrow> (Inl (ChatError e), s3)
              | (Inr final_response, s3) \<Rightarrow>
                  (Inr \<lparr>response = final_response, tools_used = used\<rparr>, s3))"
proof -
  from run_tool_calls_returns[OF shape, of env a sA]
  obtain used results s2 where r: "run_tool_calls env a calls sA = (Inr (used, results), s2)"
    and l: "length results = length calls" by blast
  show ?thesis
    using r l by (simp add: execute_unfold[OF c1 c2 ne])
qed

subsection \<open>Values the dispatch does not expect\<close>

text \<open>
  Claim C2, at a call whose tool name is a list. The block \<^verbatim>\<open>{"tool": ["write_file"]}\<close>
  is extracted as a tool call. Its name is not registered and not on the list of any
  agent, and \<^verbatim>\<open>_execute_tool\<close> returns no failure result for it: the membership test
  of \<^verbatim>\<open>has_tool\<close> raises \<^verbatim>\<open>TypeError\<close>, which nothing catches, so the loop over the
  extracted calls raises as well, before the calls after it, and \<^verbatim>\<open>execute\<close> of the
  agent without tools raises instead of reaching the synthesis pass or returning
  \<^verbatim>\<open>tools_used\<close>. No tool has run.
\<close>

theorem execute_tool_raises_on_list_name:
  "extract_tool_calls (loads_of list_name_documents) (tool_block doc_list_name)
     = Inr [JObj [(''tool'', JArr [JStr ''write_file''])]]
   \<and> has_tool (tool_registry a) (JArr [JStr ''write_file'']) = Inl TypeError
   \<and> in_tool_names (JArr [JStr ''write_file'']) (tool_names a) = False
   \<and> execute_tool env a (JObj [(''tool'', JArr [JStr ''write_file''])]) s = (Inl TypeError, s)
   \<and> run_tool_calls env a (JObj [(''tool'', JArr [JStr ''write_file''])] # rest) s
       = (Inl TypeError, s)
   \<and> execute (example_env list_name_documents) general_agent ''Save it'' None
         (start_state [Inr (tool_block doc_list_name), Inr ''Done.''])
       = (Inl TypeError,
          \<lparr>world = ([Inr ''Done.''], []),
           trace = [ChatCall (model general_agent)
                      (build_messages general_agent ''Save it'' None)
                      (temperature general_agent)]\<rparr>)"
proof -
  have x: "extract_tool_calls (loads_of list_name_documents) (tool_block doc_list_name)
     = Inr [JObj [(''tool'', JArr [JStr ''write_file''])]]"
    by (simp add: text_eval list_name_documents_def doc_list_name_def)
  have h: "has_tool (tool_registry a) (JArr [JStr ''write_file'']) = Inl TypeError"
    by simp
  have n: "in_tool_names (JArr [JStr ''write_file'']) (tool_names a) = False"
    by simp
  have e: "execute_tool env a (JObj [(''tool'', JArr [JStr ''write_file''])]) s
             = (Inl TypeError, s)"
    by (simp add: execute_tool_def dict_get_def)
  have r: "run_tool_calls env a (JObj [(''tool'', JArr [JStr ''write_file''])] # rest) s
             = (Inl TypeError, s)"
    by (simp add: e)
  have ex: "execute (example_env list_name_documents) general_agent ''Save it'' None
         (start_state [Inr (tool_block doc_list_name), Inr ''Done.''])
       = (Inl TypeError,
          \<lparr>world = ([Inr ''Done.''], []),
           trace = [ChatCall (model general_agent)
                      (build_messages general_agent ''Save it'' None)
                      (temperature general_agent)]\<rparr>)"
    by (simp add: text_eval agent_eval list_name_documents_def doc_list_name_def
        general_agent_def example_registry_def)
  from x h n e r ex show ?thesis by blast
qed

text \<open>
  Claim C3, at such an input. One tool call is extracted from the primary
  response, and \<^verbatim>\<open>execute\<close> raises \<^verbatim>\<open>TypeError\<close> instead of performing the second
  invocation: one model invocation is logged and the backend's second reply is still
  waiting.
\<close>

theorem execute_crashes_on_list_name:
  "extract_tool_calls (json_loads (example_env list_name_documents)) (tool_block doc_list_name)
     = Inr [JObj [(''tool'', JArr [JStr ''write_file''])]]
   \<and> fst (execute (example_env list_name_documents) file_manager_agent ''Save it'' None
            (start_state [Inr (tool_block doc_list_name), Inr ''Done.''])) = Inl TypeError
   \<and> fst (world (snd (execute (example_env list_name_documents) file_manager_agent ''Save it''
            None (start_state [Inr (tool_block doc_list_name), Inr ''Done.''])))) = [Inr ''Done.'']
   \<and> length (trace (snd (execute (example_env list_name_documents) file_manager_agent
            ''Save it'' None (start_state [Inr (tool_block doc_list_name), Inr ''Done.''])))) = 1"
  by (simp add: text_eval agent_eval list_name_documents_def doc_list_name_def
      file_manager_agent_def example_registry_def)

text \<open>
  Claim C4, at a block whose body is JSON and not an object. On the body \<^verbatim>\<open>5\<close> the
  extraction raises \<^verbatim>\<open>TypeError\<close>, which its \<^verbatim>\<open>except json.JSONDecodeError\<close> does not
  catch; on the body \<^verbatim>\<open>["tool"]\<close> it returns the list, which has no \<^verbatim>\<open>"tool"\<close> key,
  as a tool call.
\<close>

theorem extract_raises_on_number:
  "extract_tool_calls (loads_of scalar_documents) (tool_block doc_number) = Inl TypeError
   \<and> extract_tool_calls (loads_of scalar_documents) (tool_block doc_array)
       = Inr [JArr [JStr ''tool'']]"
  by (simp add: text_eval scalar_documents_def doc_number_def doc_array_def)

end
